theory Spec2Isabelle
  imports Main "HOL-Library.Sublist"
begin

section \<open>The platform and the world\<close>

text \<open>
  The daemon is glue over platform interfaces: WMI connections and queries, methods of
  WMI objects, and external processes (\<^verbatim>\<open>powercfg\<close>, \<^verbatim>\<open>powershell\<close>, \<^verbatim>\<open>sc\<close>).
  Every such interaction is a \<open>call\<close>. The platform is an oracle that answers a call
  from the whole history of calls made so far (the call itself is the last element),
  so the same query may be answered differently at different times. The world carries
  the history of calls and the log records written.

  A log record is its level and the message as the source writes it; the interpolated
  values of an f-string are not expanded.
\<close>

datatype wmi_val = WNone | WInt int | WStr string | WMethod

type_synonym wmi_obj = "(string \<times> wmi_val) list"

datatype call =
    WMI_Connect string
  | WMI_Query string string
  | WMI_Invoke string string "int list"
  | Subprocess "string list"
  | Sleep nat
  | Import string

datatype response =
    Raises
  | Connected
  | Objects "wmi_obj list"
  | Returned
  | Completed int string

datatype level = DEBUG | INFO | WARNING | ERROR

record world =
  calls :: "call list"
  logs :: "(level \<times> string) list"

type_synonym platform = "call list \<Rightarrow> response"

definition perform :: "platform \<Rightarrow> call \<Rightarrow> world \<Rightarrow> response \<times> world" where
  "perform plat c w = (plat (calls w @ [c]), w\<lparr>calls := calls w @ [c]\<rparr>)"

definition log :: "level \<Rightarrow> string \<Rightarrow> world \<Rightarrow> world" where
  "log lv msg w = w\<lparr>logs := logs w @ [(lv, msg)]\<rparr>"

text \<open>
  \<^verbatim>\<open>wmi.WMI(namespace=ns)\<close> returns a connection or raises; iterating
  \<^verbatim>\<open>conn.Class()\<close> yields the objects or raises; \<^verbatim>\<open>subprocess.run(argv)\<close>
  returns the exit code and the standard output, or raises when the program cannot be
  started; \<^verbatim>\<open>import wmi\<close> inside a function finds the module or raises ImportError.
  An answer of the wrong kind counts as an exception.
\<close>

definition wmi_connect :: "platform \<Rightarrow> string \<Rightarrow> world \<Rightarrow> bool \<times> world" where
  "wmi_connect plat ns w =
     (case perform plat (WMI_Connect ns) w of
        (Connected, w') \<Rightarrow> (True, w')
      | (_, w') \<Rightarrow> (False, w'))"

definition wmi_query :: "platform \<Rightarrow> string \<Rightarrow> string \<Rightarrow> world \<Rightarrow> wmi_obj list option \<times> world" where
  "wmi_query plat ns cls w =
     (case perform plat (WMI_Query ns cls) w of
        (Objects os, w') \<Rightarrow> (Some os, w')
      | (_, w') \<Rightarrow> (None, w'))"

definition wmi_invoke :: "platform \<Rightarrow> string \<Rightarrow> string \<Rightarrow> int list \<Rightarrow> world \<Rightarrow> bool \<times> world" where
  "wmi_invoke plat cls meth args w =
     (case perform plat (WMI_Invoke cls meth args) w of
        (Returned, w') \<Rightarrow> (True, w')
      | (_, w') \<Rightarrow> (False, w'))"

definition subprocess_run :: "platform \<Rightarrow> string list \<Rightarrow> world \<Rightarrow> (int \<times> string) option \<times> world" where
  "subprocess_run plat argv w =
     (case perform plat (Subprocess argv) w of
        (Completed rc out, w') \<Rightarrow> (Some (rc, out), w')
      | (_, w') \<Rightarrow> (None, w'))"

definition import_module :: "platform \<Rightarrow> string \<Rightarrow> world \<Rightarrow> bool \<times> world" where
  "import_module plat name w =
     (case perform plat (Import name) w of
        (Returned, w') \<Rightarrow> (True, w')
      | (_, w') \<Rightarrow> (False, w'))"

text \<open>\<^verbatim>\<open>hasattr(obj, name)\<close> and the call of a method of a WMI object: calling an
  attribute that is missing or is not a method raises, as does a failing method.\<close>

definition hasattr :: "wmi_obj \<Rightarrow> string \<Rightarrow> bool" where
  "hasattr obj name = (map_of obj name \<noteq> None)"

definition call_method :: "platform \<Rightarrow> string \<Rightarrow> wmi_obj \<Rightarrow> string \<Rightarrow> int list \<Rightarrow> world \<Rightarrow> bool \<times> world" where
  "call_method plat cls obj meth args w =
     (case map_of obj meth of
        Some WMethod \<Rightarrow> wmi_invoke plat cls meth args w
      | _ \<Rightarrow> (False, w))"

section \<open>Python values and exceptions\<close>

text \<open>
  Values that arrive in a request are decoded JSON: the parameters of the setters are
  dynamically typed. JSON numbers are integers here; fractional numbers are outside the
  model. Strings are byte strings (UTF-8).
\<close>

datatype json =
    JNull
  | JBool bool
  | JInt int
  | JStr string
  | JList "json list"
  | JObj "(string \<times> json) list"

datatype exn =
    JSONDecodeError
  | WinError nat
  | PyException string

definition type_name :: "json \<Rightarrow> string" where
  "type_name v =
     (case v of JNull \<Rightarrow> ''NoneType'' | JBool _ \<Rightarrow> ''bool'' | JInt _ \<Rightarrow> ''int''
      | JStr _ \<Rightarrow> ''str'' | JList _ \<Rightarrow> ''list'' | JObj _ \<Rightarrow> ''dict'')"

definition quoted :: "string \<Rightarrow> string" where
  "quoted s = [CHR 0x27] @ s @ [CHR 0x27]"

definition no_attribute :: "json \<Rightarrow> string \<Rightarrow> exn" where
  "no_attribute v a =
     PyException (quoted (type_name v) @ '' object has no attribute '' @ quoted a)"

text \<open>\<^verbatim>\<open>str.lower()\<close>: only the ASCII letters matter for the comparisons the daemon
  makes (no key of its tables contains a letter that a non-ASCII character lowers to).\<close>

definition lower_char :: "char \<Rightarrow> char" where
  "lower_char c =
     (let n = (of_char c :: nat) in if 65 \<le> n \<and> n \<le> 90 then char_of (n + 32) else c)"

definition lower :: "string \<Rightarrow> string" where
  "lower s = map lower_char s"

text \<open>
  Equality of two names up to the case of their ASCII letters, said without \<open>lower\<close>:
  letter by letter, the two characters are the same or one is a capital and the other
  its small letter. It is what "case-insensitive" means, to be compared with what the
  code computes.
\<close>

definition same_letter :: "char \<Rightarrow> char \<Rightarrow> bool" where
  "same_letter a b =
     (a = b
      \<or> (65 \<le> (of_char a :: nat) \<and> (of_char a :: nat) \<le> 90 \<and> (of_char b :: nat) = of_char a + 32)
      \<or> (65 \<le> (of_char b :: nat) \<and> (of_char b :: nat) \<le> 90 \<and> (of_char a :: nat) = of_char b + 32))"

definition equal_ignoring_case :: "string \<Rightarrow> string \<Rightarrow> bool" where
  "equal_ignoring_case p q = list_all2 same_letter p q"

section \<open>DAMXManager\<close>

datatype LaptopType = UNKNOWN | PREDATOR | NITRO

text \<open>\<open>available_features\<close> is a Python set; the list is the set in its iteration
  order, and membership is all the daemon asks of it.\<close>

record manager =
  wmi_connection :: bool
  wmi_root :: bool
  laptop_type :: LaptopType
  has_four_zone_kb :: bool
  current_modprobe_param :: string
  available_features :: "string list"

subsection \<open>Thermal profile\<close>

definition scheme_map :: "(string \<times> string) list" where
  "scheme_map =
     [(''performance'', ''8c5e7fda-e8bf-4a96-9a85-a6e23a8c635c''),
      (''balanced-performance'', ''8c5e7fda-e8bf-4a96-9a85-a6e23a8c635c''),
      (''balanced'', ''381b4222-f694-41f0-9685-ff5bb260df2e''),
      (''quiet'', ''a1841308-3541-4fab-bc81-f71556f20b4a''),
      (''low-power'', ''a1841308-3541-4fab-bc81-f71556f20b4a'')]"

definition scheme_guid :: "string \<Rightarrow> string" where
  "scheme_guid profile =
     (case map_of scheme_map (lower profile) of
        Some g \<Rightarrow> g
      | None \<Rightarrow> ''381b4222-f694-41f0-9685-ff5bb260df2e'')"

definition set_thermal_profile :: "manager \<Rightarrow> platform \<Rightarrow> json \<Rightarrow> world \<Rightarrow> (exn + bool) \<times> world" where
  "set_thermal_profile m plat profile w =
     (if ''thermal_profile'' \<notin> set (available_features m) then (Inr False, w)
      else case profile of
        JStr p \<Rightarrow>
          (case subprocess_run plat [''powercfg'', ''/setactive'', scheme_guid p] w of
             (Some (rc, out), w') \<Rightarrow>
               if rc = 0 then (Inr True, log INFO ''Set power scheme to: {profile}'' w')
               else (Inr False, log ERROR ''Failed to set power scheme: {e}'' w')
           | (None, w') \<Rightarrow> (Inr False, log ERROR ''Failed to set power scheme: {e}'' w'))
      | _ \<Rightarrow> (Inl (no_attribute profile ''lower''), w))"

definition get_thermal_profile_choices :: "manager \<Rightarrow> string list" where
  "get_thermal_profile_choices m =
     (if ''thermal_profile'' \<notin> set (available_features m) then []
      else [''low-power'', ''quiet'', ''balanced'', ''balanced-performance'', ''performance''])"

definition get_thermal_profile :: "manager \<Rightarrow> platform \<Rightarrow> world \<Rightarrow> string \<times> world" where
  "get_thermal_profile m plat w =
     (if ''thermal_profile'' \<notin> set (available_features m) then ('''', w)
      else case subprocess_run plat [''powercfg'', ''/getactivescheme''] w of
        (Some (rc, out), w') \<Rightarrow>
          (let output = lower out in
           if sublist ''balanced'' output then (''balanced'', w')
           else if sublist ''high performance'' output \<or> sublist ''performance'' output
             then (''performance'', w')
           else if sublist ''power saver'' output then (''low-power'', w')
           else (''balanced'', w'))
      | (None, w') \<Rightarrow> (''balanced'', w'))"

subsection \<open>Fan speed: setting\<close>

text \<open>\<^verbatim>\<open>str(n)\<close> for an integer.\<close>

function str_nat :: "nat \<Rightarrow> string" where
  "str_nat n = (if n < 10 then [char_of (48 + n)] else str_nat (n div 10) @ [char_of (48 + n mod 10)])"
  by pat_completeness auto
termination
  by (relation "measure id") auto

declare str_nat.simps [simp del]

definition str_int :: "int \<Rightarrow> string" where
  "str_int i = (if i < 0 then CHR ''-'' # str_nat (nat (- i)) else str_nat (nat i))"

text \<open>
  The arguments are dynamically typed. \<^verbatim>\<open>0 <= v <= 100\<close> raises a TypeError for a
  value that is not a number; a bool is the integer 0 or 1.
\<close>

definition py_int :: "json \<Rightarrow> int option" where
  "py_int v = (case v of JInt n \<Rightarrow> Some n | JBool b \<Rightarrow> Some (if b then 1 else 0) | _ \<Rightarrow> None)"

definition in_range :: "json \<Rightarrow> exn + bool" where
  "in_range v =
     (case py_int v of
        Some n \<Rightarrow> Inr (0 \<le> n \<and> n \<le> 100)
      | None \<Rightarrow> Inl (PyException (quoted ''<='' @ '' not supported between instances of ''
                 @ quoted ''int'' @ '' and '' @ quoted (type_name v))))"

text \<open>\<^verbatim>\<open>0 <= cpu <= 100 and 0 <= gpu <= 100\<close>: the second operand is evaluated only
  when the first holds.\<close>

definition valid_speeds :: "json \<Rightarrow> json \<Rightarrow> exn + bool" where
  "valid_speeds cpu gpu =
     (case in_range cpu of
        Inl e \<Rightarrow> Inl e
      | Inr False \<Rightarrow> Inr False
      | Inr True \<Rightarrow> in_range gpu)"

text \<open>Method 1, first attempt: the first controller that has \<^verbatim>\<open>SetFanSpeed\<close> decides;
  an exception leaves the loop.\<close>

fun try_controllers :: "platform \<Rightarrow> int \<Rightarrow> int \<Rightarrow> wmi_obj list \<Rightarrow> world \<Rightarrow> bool \<times> world" where
  "try_controllers plat cpu gpu [] w = (False, w)"
| "try_controllers plat cpu gpu (controller # rest) w =
     (if hasattr controller ''SetFanSpeed'' then
        (case call_method plat ''AcerGaming_FanSpeedController'' controller ''SetFanSpeed'' [cpu, gpu] w of
           (True, w') \<Rightarrow> (True, log INFO ''Set fan speeds via Acer WMI: CPU={cpu}%, GPU={gpu}%'' w')
         | (False, w') \<Rightarrow> (False, w'))
      else try_controllers plat cpu gpu rest w)"

text \<open>Method 1, the separate classes: every object that has \<^verbatim>\<open>SetSpeed\<close> is set, until
  one raises; nothing is returned.\<close>

fun set_speeds :: "platform \<Rightarrow> string \<Rightarrow> string \<Rightarrow> int \<Rightarrow> wmi_obj list \<Rightarrow> world \<Rightarrow> world" where
  "set_speeds plat cls msg v [] w = w"
| "set_speeds plat cls msg v (fan # rest) w =
     (if hasattr fan ''SetSpeed'' then
        (case call_method plat cls fan ''SetSpeed'' [v] w of
           (True, w') \<Rightarrow> set_speeds plat cls msg v rest (log INFO msg w')
         | (False, w') \<Rightarrow> w')
      else set_speeds plat cls msg v rest w)"

definition set_speeds_of :: "platform \<Rightarrow> string \<Rightarrow> string \<Rightarrow> int \<Rightarrow> world \<Rightarrow> world" where
  "set_speeds_of plat cls msg v w =
     (case wmi_query plat ''root/WMI'' cls w of
        (Some fans, w') \<Rightarrow> set_speeds plat cls msg v fans w'
      | (None, w') \<Rightarrow> w')"

definition fan_method1 :: "platform \<Rightarrow> int \<Rightarrow> int \<Rightarrow> world \<Rightarrow> bool \<times> world" where
  "fan_method1 plat cpu gpu w =
     (case wmi_connect plat ''root/WMI'' w of
        (False, w1) \<Rightarrow> (False, log DEBUG ''Acer WMI set fan speed not available: {e}'' w1)
      | (True, w1) \<Rightarrow>
          (case (case wmi_query plat ''root/WMI'' ''AcerGaming_FanSpeedController'' w1 of
                   (Some controllers, w2) \<Rightarrow> try_controllers plat cpu gpu controllers w2
                 | (None, w2) \<Rightarrow> (False, w2)) of
             (True, w3) \<Rightarrow> (True, w3)
           | (False, w3) \<Rightarrow>
               (False,
                set_speeds_of plat ''AcerGaming_GpuFanSpeed'' ''Set GPU fan speed: {gpu}%'' gpu
                  (set_speeds_of plat ''AcerGaming_CpuFanSpeed'' ''Set CPU fan speed: {cpu}%'' cpu w3))))"

text \<open>Method 2: the first ACMC object that has \<^verbatim>\<open>SetFanManual\<close> decides.\<close>

fun try_acmc :: "platform \<Rightarrow> int \<Rightarrow> int \<Rightarrow> wmi_obj list \<Rightarrow> world \<Rightarrow> bool \<times> world" where
  "try_acmc plat cpu gpu [] w = (False, w)"
| "try_acmc plat cpu gpu (acmc # rest) w =
     (if hasattr acmc ''SetFanManual'' then
        (if cpu = 0 \<and> gpu = 0 then call_method plat ''AcerACMCEvent'' acmc ''SetFanManual'' [0] w
         else
           (case call_method plat ''AcerACMCEvent'' acmc ''SetFanManual'' [1] w of
              (True, w') \<Rightarrow> call_method plat ''AcerACMCEvent'' acmc ''SetFanSpeed'' [cpu, gpu] w'
            | (False, w') \<Rightarrow> (False, w')))
      else try_acmc plat cpu gpu rest w)"

definition fan_method2 :: "platform \<Rightarrow> int \<Rightarrow> int \<Rightarrow> world \<Rightarrow> bool \<times> world" where
  "fan_method2 plat cpu gpu w =
     (case wmi_connect plat ''root/WMI'' w of
        (False, w1) \<Rightarrow> (False, w1)
      | (True, w1) \<Rightarrow>
          (case wmi_query plat ''root/WMI'' ''AcerACMCEvent'' w1 of
             (Some acmcs, w2) \<Rightarrow> try_acmc plat cpu gpu acmcs w2
           | (None, w2) \<Rightarrow> (False, w2)))"

text \<open>Method 3: the PowerShell script, with the two speeds written into it.\<close>

definition ps_cmd :: "int \<Rightarrow> int \<Rightarrow> string" where
  "ps_cmd safe_cpu safe_gpu = concat (map (\<lambda>l. l @ [CHR 0x0A])
     ['''',
      ''$namespace = '' @ [CHR 0x22] @ ''root'' @ [CHR 0x5C] @ ''WMI'' @ [CHR 0x22],
      ''$classes = @('' @ [CHR 0x22] @ ''AcerGaming_FanSpeed'' @ [CHR 0x22] @ '', ''
        @ [CHR 0x22] @ ''AcerGaming_FanSpeedController'' @ [CHR 0x22] @ '', ''
        @ [CHR 0x22] @ ''AcerGaming_CpuFanSpeed'' @ [CHR 0x22] @ '', ''
        @ [CHR 0x22] @ ''AcerGaming_GpuFanSpeed'' @ [CHR 0x22] @ '')'',
      ''foreach ($class in $classes) {'',
      ''    try {'',
      ''        $obj = Get-CimInstance -Namespace $namespace -ClassName $class -ErrorAction Stop'',
      ''        if ($obj) {'',
      ''            $methods = Get-CimClass -Namespace $namespace -ClassName $class'',
      ''            foreach ($method in $methods.CimClassMethods) {'',
      ''                if ($method.Name -like '' @ [CHR 0x22] @ ''*SetSpeed*'' @ [CHR 0x22]
        @ '' -or $method.Name -like '' @ [CHR 0x22] @ ''*SetFan*'' @ [CHR 0x22] @ '') {'',
      ''                    Invoke-CimMethod -InputObject $obj -MethodName $method.Name -Arguments @'' @ ''{CpuSpeed=''
        @ str_int safe_cpu @ ''; GpuSpeed='' @ str_int safe_gpu @ ''}'',
      ''                    exit 0'',
      ''                }'',
      ''            }'',
      ''        }'',
      ''    } catch { }'',
      ''}'',
      ''exit 1''])"

definition fan_method3 :: "platform \<Rightarrow> int \<Rightarrow> int \<Rightarrow> world \<Rightarrow> bool \<times> world" where
  "fan_method3 plat cpu gpu w =
     (case subprocess_run plat [''powershell'', ''-Command'', ps_cmd cpu gpu] w of
        (Some (returncode, out), w') \<Rightarrow>
          if returncode = 0
          then (True, log INFO ''Set fan speeds via PowerShell: CPU={safe_cpu}%, GPU={safe_gpu}%'' w')
          else (False, w')
      | (None, w') \<Rightarrow> (False, log DEBUG ''PowerShell fan control failed: {e}'' w'))"

text \<open>The workaround when no method returned: the thermal profile stands in for the
  fan speed. The result of \<open>set_thermal_profile\<close> is not looked at; an exception
  from it would reach the outer handler of \<open>set_fan_speed\<close>.\<close>

definition fan_fallback :: "manager \<Rightarrow> platform \<Rightarrow> int \<Rightarrow> int \<Rightarrow> world \<Rightarrow> bool \<times> world" where
  "fan_fallback m plat cpu gpu w =
     (let w0 = log INFO ''Alternative: Use 'performance' thermal profile for higher fan speeds''
                (log INFO ''Tip: Install Acer PredatorSense/NitroSense for full fan control''
                  (log WARNING ''Direct fan control not available on this system'' w))
      in
      if ''thermal_profile'' \<in> set (available_features m) then
        if cpu \<ge> 80 \<and> gpu \<ge> 80 then
          (case set_thermal_profile m plat (JStr ''performance'') w0 of
             (Inr _, w') \<Rightarrow>
               (True, log INFO ''Applied 'performance' thermal profile for higher fan speeds'' w')
           | (Inl e, w') \<Rightarrow> (False, log ERROR ''Error setting fan speed: {e}'' w'))
        else if cpu = 0 \<and> gpu = 0 then
          (case set_thermal_profile m plat (JStr ''balanced'') w0 of
             (Inr _, w') \<Rightarrow>
               (True, log INFO ''Applied 'balanced' thermal profile for auto fan control'' w')
           | (Inl e, w') \<Rightarrow> (False, log ERROR ''Error setting fan speed: {e}'' w'))
        else (False, w0)
      else (False, w0))"

definition set_fan_speed :: "manager \<Rightarrow> platform \<Rightarrow> json \<Rightarrow> json \<Rightarrow> world \<Rightarrow> (exn + bool) \<times> world" where
  "set_fan_speed m plat cpu gpu w =
     (if ''fan_speed'' \<notin> set (available_features m) then (Inr False, w)
      else
        case valid_speeds cpu gpu of
          Inl e \<Rightarrow> (Inl e, w)
        | Inr False \<Rightarrow>
            (Inr False,
             log ERROR ''Invalid fan speeds. Values must be between 0 and 100: cpu={cpu}, gpu={gpu}'' w)
        | Inr True \<Rightarrow>
            (let c = the (py_int cpu); g = the (py_int gpu) in
             case fan_method1 plat c g w of
               (True, w1) \<Rightarrow> (Inr True, w1)
             | (False, w1) \<Rightarrow>
                 (case fan_method2 plat c g w1 of
                    (True, w2) \<Rightarrow> (Inr True, w2)
                  | (False, w2) \<Rightarrow>
                      (case fan_method3 plat c g w2 of
                         (True, w3) \<Rightarrow> (Inr True, w3)
                       | (False, w3) \<Rightarrow>
                           (case fan_fallback m plat c g w3 of
                              (r, w4) \<Rightarrow> (Inr r, w4))))))"

subsection \<open>The setters without a platform implementation\<close>

definition set_backlight_timeout :: "manager \<Rightarrow> json \<Rightarrow> world \<Rightarrow> bool \<times> world" where
  "set_backlight_timeout m enabled w =
     (False, log INFO ''Backlight timeout control not supported on Windows'' w)"

definition set_battery_calibration :: "manager \<Rightarrow> json \<Rightarrow> world \<Rightarrow> bool \<times> world" where
  "set_battery_calibration m enabled w =
     (False, log INFO ''Battery calibration control not supported on Windows - use Acer Care Center'' w)"

definition set_battery_limiter :: "manager \<Rightarrow> json \<Rightarrow> world \<Rightarrow> bool \<times> world" where
  "set_battery_limiter m enabled w =
     (False, log INFO ''Battery limiter control not supported on Windows - use Acer Care Center'' w)"

definition set_boot_animation_sound :: "manager \<Rightarrow> json \<Rightarrow> world \<Rightarrow> bool \<times> world" where
  "set_boot_animation_sound m enabled w =
     (False, log INFO ''Boot animation sound control not supported on Windows'' w)"

definition set_lcd_override :: "manager \<Rightarrow> json \<Rightarrow> world \<Rightarrow> bool \<times> world" where
  "set_lcd_override m enabled w =
     (False, log INFO ''LCD override control not supported on Windows'' w)"

definition set_usb_charging :: "manager \<Rightarrow> json \<Rightarrow> world \<Rightarrow> bool \<times> world" where
  "set_usb_charging m lvl w =
     (False, log INFO ''USB charging control not supported on Windows'' w)"

definition set_per_zone_mode :: "manager \<Rightarrow> json \<Rightarrow> json \<Rightarrow> json \<Rightarrow> json \<Rightarrow> json \<Rightarrow> world \<Rightarrow> bool \<times> world" where
  "set_per_zone_mode m zone1 zone2 zone3 zone4 brightness w =
     (False, log INFO
        ''Per-zone keyboard control not supported on Windows - use Acer NitroSense/PredatorSense'' w)"

definition set_four_zone_mode :: "manager \<Rightarrow> json \<Rightarrow> json \<Rightarrow> json \<Rightarrow> json \<Rightarrow> json \<Rightarrow> json \<Rightarrow> json \<Rightarrow> world \<Rightarrow> bool \<times> world" where
  "set_four_zone_mode m mode speed brightness direction red green blue w =
     (False, log INFO
        ''Four-zone keyboard control not supported on Windows - use Acer NitroSense/PredatorSense'' w)"

subsection \<open>Construction: device identity and the feature set\<close>

text \<open>
  Reading a property of a WMI object: a missing attribute raises; an attribute that is a
  method, where the daemon reads a value, counts as an answer of the wrong kind and
  raises as well. \<open>truthy\<close> is Python's truth value, \<open>py_str\<close> is \<^verbatim>\<open>str(v)\<close>.
\<close>

definition getattr_val :: "wmi_obj \<Rightarrow> string \<Rightarrow> wmi_val option" where
  "getattr_val obj name = (case map_of obj name of Some WMethod \<Rightarrow> None | r \<Rightarrow> r)"

definition truthy :: "wmi_val \<Rightarrow> bool" where
  "truthy v = (case v of WNone \<Rightarrow> False | WInt n \<Rightarrow> n \<noteq> 0 | WStr s \<Rightarrow> s \<noteq> [] | WMethod \<Rightarrow> True)"

definition py_str :: "wmi_val \<Rightarrow> string" where
  "py_str v = (case v of WNone \<Rightarrow> ''None'' | WInt n \<Rightarrow> str_int n | WStr s \<Rightarrow> s | WMethod \<Rightarrow> ''<method>'')"

definition upper_char :: "char \<Rightarrow> char" where
  "upper_char c =
     (let n = (of_char c :: nat) in if 97 \<le> n \<and> n \<le> 122 then char_of (n - 32) else c)"

definition upper :: "string \<Rightarrow> string" where
  "upper s = map upper_char s"

text \<open>\<^verbatim>\<open>(obj.name or "")\<close> followed by a string method: \<open>None\<close> when the read or the
  method raises (the value is truthy and not a string).\<close>

definition str_or_empty :: "wmi_obj \<Rightarrow> string \<Rightarrow> string option" where
  "str_or_empty obj name =
     (case getattr_val obj name of
        None \<Rightarrow> None
      | Some v \<Rightarrow> if truthy v then (case v of WStr s \<Rightarrow> Some s | _ \<Rightarrow> None) else Some [])"

fun classify_systems :: "wmi_obj list \<Rightarrow> LaptopType option" where
  "classify_systems [] = Some UNKNOWN"
| "classify_systems (system # rest) =
     (case str_or_empty system ''Model'' of
        None \<Rightarrow> None
      | Some model \<Rightarrow>
          (case str_or_empty system ''Manufacturer'' of
             None \<Rightarrow> None
           | Some manufacturer \<Rightarrow>
               if sublist ''ACER'' (upper manufacturer) then
                 if sublist ''PREDATOR'' (upper model) then Some PREDATOR
                 else if sublist ''NITRO'' (upper model) then Some NITRO
                 else classify_systems rest
               else classify_systems rest))"

definition detect_laptop_type :: "bool \<Rightarrow> platform \<Rightarrow> world \<Rightarrow> LaptopType \<times> world" where
  "detect_laptop_type conn plat w =
     (if conn then
        (case wmi_query plat [] ''Win32_ComputerSystem'' w of
           (Some systems, w') \<Rightarrow>
             (case classify_systems systems of
                Some t \<Rightarrow> (t, w')
              | None \<Rightarrow> (UNKNOWN, log ERROR ''Error detecting laptop type: {e}'' w'))
         | (None, w') \<Rightarrow> (UNKNOWN, log ERROR ''Error detecting laptop type: {e}'' w'))
      else (UNKNOWN, w))"

fun acer_keyboard :: "wmi_obj list \<Rightarrow> bool" where
  "acer_keyboard [] = False"
| "acer_keyboard (device # rest) =
     (case str_or_empty device ''Name'' of
        None \<Rightarrow> False
      | Some name \<Rightarrow> if sublist ''acer'' (lower name) then True else acer_keyboard rest)"

definition check_four_zone_kb :: "bool \<Rightarrow> platform \<Rightarrow> world \<Rightarrow> bool \<times> world" where
  "check_four_zone_kb conn plat w =
     (if conn then
        (case wmi_query plat [] ''Win32_Keyboard'' w of
           (Some devices, w') \<Rightarrow> (acer_keyboard devices, w')
         | (None, w') \<Rightarrow> (False, w'))
      else (False, w))"

definition add :: "string \<Rightarrow> string list \<Rightarrow> string list" where
  "add x xs = (if x \<in> set xs then xs else xs @ [x])"

definition detect_available_features :: "bool \<Rightarrow> LaptopType \<Rightarrow> platform \<Rightarrow> world \<Rightarrow> string list \<times> world" where
  "detect_available_features conn ltype plat w =
     (let vendor = (\<lambda>available.
            if ltype \<noteq> UNKNOWN
            then add ''lcd_override'' (add ''backlight_timeout''
                   (add ''boot_animation_sound'' (add ''fan_speed'' available)))
            else available)
      in
      if conn then
        (case wmi_query plat [] ''Win32_Battery'' w of
           (None, w1) \<Rightarrow> ([], log ERROR ''Error detecting features: {e}'' w1)
         | (Some batteries, w1) \<Rightarrow>
             (let available = (if batteries = [] then []
                               else add ''battery_limiter'' (add ''battery_calibration'' []))
              in case wmi_connect plat ''root/WMI'' w1 of
                   (ok, w2) \<Rightarrow>
                     (vendor (add ''thermal_profile''
                        (if ok then add ''thermal_profile'' available else available)), w2)))
      else (vendor (add ''thermal_profile'' []), w))"

definition init_manager :: "platform \<Rightarrow> world \<Rightarrow> manager \<times> world" where
  "init_manager plat w =
     (let w0 = log INFO ''** Starting DAMX-Daemon v{VERSION} (Windows) **'' w;
          (conn, root, w2) =
            (case wmi_connect plat [] w0 of
               (False, w1) \<Rightarrow> (False, False, log ERROR ''Failed to connect to WMI: {e}'' w1)
             | (True, w1) \<Rightarrow>
                 (case wmi_connect plat ''root/WMI'' w1 of
                    (False, w2) \<Rightarrow> (False, False, log ERROR ''Failed to connect to WMI: {e}'' w2)
                  | (True, w2) \<Rightarrow> (True, True, log INFO ''WMI connection established'' w2)));
          (ltype, w3) = detect_laptop_type conn plat w2;
          (four_zone, w4) = check_four_zone_kb conn plat w3;
          (features, w5) = detect_available_features conn ltype plat w4
      in (\<lparr>wmi_connection = conn, wmi_root = root, laptop_type = ltype,
           has_four_zone_kb = four_zone, current_modprobe_param = [],
           available_features = features\<rparr>,
          log INFO ''Available features: {', '.join(self.available_features)}''
            (log INFO ''Four-zone keyboard: {'Yes' if self.has_four_zone_kb else 'No'}''
              (log INFO ''Detected laptop type: {self.laptop_type.name}'' w5))))"

subsection \<open>The getters\<close>

text \<open>The driver version is the path of the first ACPI driver, \<^verbatim>\<open>"ACPI Driver"\<close> when
  the path is empty; the value is passed on as it is read.\<close>

definition json_of :: "wmi_val \<Rightarrow> json" where
  "json_of v = (case v of WNone \<Rightarrow> JNull | WInt n \<Rightarrow> JInt n | WStr s \<Rightarrow> JStr s | WMethod \<Rightarrow> JNull)"

definition get_driver_version :: "manager \<Rightarrow> platform \<Rightarrow> world \<Rightarrow> json \<times> world" where
  "get_driver_version m plat w =
     (if wmi_connection m then
        (case wmi_query plat [] ''Win32_SystemDriver(Name='ACPI')'' w of
           (None, w') \<Rightarrow> (JStr ''Unknown Version'', w')
         | (Some [], w') \<Rightarrow> (JStr ''Windows WMI'', w')
         | (Some (driver # rest), w') \<Rightarrow>
             (case getattr_val driver ''PathName'' of
                None \<Rightarrow> (JStr ''Unknown Version'', w')
              | Some v \<Rightarrow> (if truthy v then json_of v else JStr ''ACPI Driver'', w')))
      else (JStr ''Windows WMI'', w))"

definition get_backlight_timeout :: "manager \<Rightarrow> string" where
  "get_backlight_timeout m = ''0''"

definition get_battery_calibration :: "manager \<Rightarrow> string" where
  "get_battery_calibration m = ''0''"

definition get_battery_limiter :: "manager \<Rightarrow> string" where
  "get_battery_limiter m = ''0''"

definition get_boot_animation_sound :: "manager \<Rightarrow> string" where
  "get_boot_animation_sound m = ''0''"

definition get_lcd_override :: "manager \<Rightarrow> string" where
  "get_lcd_override m = ''0''"

definition get_usb_charging :: "manager \<Rightarrow> string" where
  "get_usb_charging m = ''0''"

definition get_per_zone_mode :: "manager \<Rightarrow> string" where
  "get_per_zone_mode m = []"

definition get_four_zone_mode :: "manager \<Rightarrow> string" where
  "get_four_zone_mode m = []"

definition get_modprobe_parameter :: "manager \<Rightarrow> string" where
  "get_modprobe_parameter m = []"

subsection \<open>Fan speed: reading\<close>

text \<open>
  The loops of \<open>get_fan_speed\<close> over the objects of a query. Each carries the pair
  \<open>(cpu_fan, gpu_fan)\<close>; an exception inside a loop ends the loop and keeps what was
  assigned before it. In the first loop the flag says that the function returned.
\<close>

definition read_str :: "wmi_obj \<Rightarrow> string \<Rightarrow> string \<Rightarrow> string option" where
  "read_str obj name old =
     (if hasattr obj name
      then (case getattr_val obj name of None \<Rightarrow> None | Some v \<Rightarrow> Some (py_str v))
      else Some old)"

fun fan_speed_loop :: "wmi_obj list \<Rightarrow> string \<times> string \<Rightarrow> bool \<times> string \<times> string" where
  "fan_speed_loop [] (cpu_fan, gpu_fan) = (False, cpu_fan, gpu_fan)"
| "fan_speed_loop (fan # rest) (cpu_fan, gpu_fan) =
     (case read_str fan ''CpuFanSpeed'' cpu_fan of
        None \<Rightarrow> (False, cpu_fan, gpu_fan)
      | Some c \<Rightarrow>
          (case read_str fan ''GpuFanSpeed'' gpu_fan of
             None \<Rightarrow> (False, c, gpu_fan)
           | Some g \<Rightarrow>
               if c \<noteq> ''0'' \<or> g \<noteq> ''0'' then (True, c, g)
               else fan_speed_loop rest (c, g)))"

fun current_speed_loop :: "wmi_obj list \<Rightarrow> string \<Rightarrow> string" where
  "current_speed_loop [] speed = speed"
| "current_speed_loop (fan # rest) speed =
     (case read_str fan ''CurrentSpeed'' speed of
        None \<Rightarrow> speed
      | Some s \<Rightarrow> current_speed_loop rest s)"

fun desired_speed_loop :: "wmi_obj list \<Rightarrow> string \<Rightarrow> string" where
  "desired_speed_loop [] speed = speed"
| "desired_speed_loop (cooling # rest) speed =
     (if hasattr cooling ''DesiredSpeed''
      then (case getattr_val cooling ''DesiredSpeed'' of None \<Rightarrow> speed | Some v \<Rightarrow> py_str v)
      else desired_speed_loop rest speed)"

text \<open>A sensor of a hardware monitor: its name lowered (empty when the name is falsy)
  and its value as the decimal of its integer part (\<^verbatim>\<open>"0"\<close> when the value is falsy).
  The value is numeric; a string there counts as an answer of the wrong kind.\<close>

definition sensor_name :: "wmi_obj \<Rightarrow> string option" where
  "sensor_name sensor =
     (case getattr_val sensor ''Name'' of
        None \<Rightarrow> None
      | Some v \<Rightarrow> if truthy v then (case v of WStr s \<Rightarrow> Some (lower s) | _ \<Rightarrow> None) else Some [])"

definition sensor_value :: "wmi_obj \<Rightarrow> string option" where
  "sensor_value sensor =
     (case getattr_val sensor ''Value'' of
        None \<Rightarrow> None
      | Some v \<Rightarrow> if truthy v then (case v of WInt n \<Rightarrow> Some (str_int n) | _ \<Rightarrow> None) else Some ''0'')"

fun sensor_loop :: "string \<Rightarrow> string \<Rightarrow> wmi_obj list \<Rightarrow> string \<times> string \<Rightarrow> string \<times> string" where
  "sensor_loop p1 p2 [] (cpu_fan, gpu_fan) = (cpu_fan, gpu_fan)"
| "sensor_loop p1 p2 (sensor # rest) (cpu_fan, gpu_fan) =
     (case getattr_val sensor ''SensorType'' of
        None \<Rightarrow> (cpu_fan, gpu_fan)
      | Some t \<Rightarrow>
          if t = WStr ''Fan'' then
            (case sensor_name sensor of
               None \<Rightarrow> (cpu_fan, gpu_fan)
             | Some name \<Rightarrow>
                 (case sensor_value sensor of
                    None \<Rightarrow> (cpu_fan, gpu_fan)
                  | Some val \<Rightarrow>
                      if sublist ''cpu'' name \<or> sublist p1 name
                      then sensor_loop p1 p2 rest (val, gpu_fan)
                      else if sublist ''gpu'' name \<or> sublist p2 name
                      then sensor_loop p1 p2 rest (cpu_fan, val)
                      else sensor_loop p1 p2 rest (cpu_fan, gpu_fan)))
          else sensor_loop p1 p2 rest (cpu_fan, gpu_fan))"

definition monitor_sensors ::
  "platform \<Rightarrow> string \<Rightarrow> string \<Rightarrow> string \<Rightarrow> string \<times> string \<Rightarrow> world \<Rightarrow> (string \<times> string) \<times> world" where
  "monitor_sensors plat ns p1 p2 speeds w =
     (case wmi_connect plat ns w of
        (False, w1) \<Rightarrow> (speeds, w1)
      | (True, w1) \<Rightarrow>
          (case wmi_query plat ns ''Sensor'' w1 of
             (None, w2) \<Rightarrow> (speeds, w2)
           | (Some sensors, w2) \<Rightarrow> (sensor_loop p1 p2 sensors speeds, w2)))"

definition current_speed_of :: "platform \<Rightarrow> string \<Rightarrow> string \<Rightarrow> world \<Rightarrow> string \<times> world" where
  "current_speed_of plat cls speed w =
     (case wmi_query plat ''root/WMI'' cls w of
        (None, w') \<Rightarrow> (speed, w')
      | (Some fans, w') \<Rightarrow> (current_speed_loop fans speed, w'))"

text \<open>Method 1 of \<open>get_fan_speed\<close>: the flag says that the function returned.\<close>

definition read_fan_method1 :: "platform \<Rightarrow> world \<Rightarrow> (bool \<times> string \<times> string) \<times> world" where
  "read_fan_method1 plat w =
     (case wmi_connect plat ''root/WMI'' w of
        (False, w1) \<Rightarrow> ((False, ''0'', ''0''), log DEBUG ''Acer WMI not available: {e}'' w1)
      | (True, w1) \<Rightarrow>
          (case (case wmi_query plat ''root/WMI'' ''AcerGaming_FanSpeed'' w1 of
                   (None, w2) \<Rightarrow> ((False, ''0'', ''0''), w2)
                 | (Some fans, w2) \<Rightarrow> (fan_speed_loop fans (''0'', ''0''), w2)) of
             ((True, c, g), w2) \<Rightarrow> ((True, c, g), w2)
           | ((False, c, g), w2) \<Rightarrow>
               (case current_speed_of plat ''AcerGaming_CpuFanSpeed'' c w2 of
                  (c', w3) \<Rightarrow>
                    (case current_speed_of plat ''AcerGaming_GpuFanSpeed'' g w3 of
                       (g', w4) \<Rightarrow> ((c' \<noteq> ''0'' \<or> g' \<noteq> ''0'', c', g'), w4)))))"

definition read_fan_method2 :: "manager \<Rightarrow> platform \<Rightarrow> string \<Rightarrow> world \<Rightarrow> string \<times> world" where
  "read_fan_method2 m plat cpu_fan w =
     (if wmi_root m then
        (case wmi_query plat ''root/WMI'' ''Win32_Fan'' w of
           (None, w') \<Rightarrow> (cpu_fan, w')
         | (Some coolings, w') \<Rightarrow> (desired_speed_loop coolings cpu_fan, w'))
      else (cpu_fan, w))"

definition get_fan_speed :: "manager \<Rightarrow> platform \<Rightarrow> world \<Rightarrow> (string \<times> string) \<times> world" where
  "get_fan_speed m plat w =
     (if ''fan_speed'' \<notin> set (available_features m) then (([], []), w)
      else
        case read_fan_method1 plat w of
          ((True, c, g), w1) \<Rightarrow> ((c, g), w1)
        | ((False, c, g), w1) \<Rightarrow>
            (case read_fan_method2 m plat c w1 of
               (c2, w2) \<Rightarrow>
                 (case monitor_sensors plat ''root/OpenHardwareMonitor'' ''fan #1'' ''fan #2'' (c2, g) w2 of
                    (speeds3, w3) \<Rightarrow>
                      monitor_sensors plat ''root/LibreHardwareMonitor'' ''#1'' ''#2'' speeds3 w3)))"

subsection \<open>All settings\<close>

text \<open>
  \<open>get_all_settings\<close> calls the getters as methods of the manager object and has no
  exception handler of its own. \<open>getters\<close> are the methods it calls, each of which
  returns or raises; \<open>get_all_settings_with\<close> is the function over any such methods,
  and \<open>get_all_settings\<close> is the function with the methods of \<open>DAMXManager\<close>. The
  settings are a dictionary in insertion order.
\<close>

record getters =
  g_driver_version :: "world \<Rightarrow> (exn + json) \<times> world"
  g_thermal_profile :: "world \<Rightarrow> (exn + json) \<times> world"
  g_thermal_profile_choices :: "world \<Rightarrow> (exn + json) \<times> world"
  g_backlight_timeout :: "world \<Rightarrow> (exn + json) \<times> world"
  g_battery_calibration :: "world \<Rightarrow> (exn + json) \<times> world"
  g_battery_limiter :: "world \<Rightarrow> (exn + json) \<times> world"
  g_boot_animation_sound :: "world \<Rightarrow> (exn + json) \<times> world"
  g_fan_speed :: "world \<Rightarrow> (exn + json \<times> json) \<times> world"
  g_lcd_override :: "world \<Rightarrow> (exn + json) \<times> world"
  g_usb_charging :: "world \<Rightarrow> (exn + json) \<times> world"
  g_per_zone_mode :: "world \<Rightarrow> (exn + json) \<times> world"
  g_four_zone_mode :: "world \<Rightarrow> (exn + json) \<times> world"

type_synonym settings = "(string \<times> json) list"

definition returns :: "'a \<Rightarrow> world \<Rightarrow> (exn + 'a) \<times> world" where
  "returns x w = (Inr x, w)"

definition own_getters :: "manager \<Rightarrow> platform \<Rightarrow> getters" where
  "own_getters m plat =
     \<lparr>g_driver_version = (\<lambda>w. case get_driver_version m plat w of (v, w') \<Rightarrow> (Inr v, w')),
      g_thermal_profile = (\<lambda>w. case get_thermal_profile m plat w of (p, w') \<Rightarrow> (Inr (JStr p), w')),
      g_thermal_profile_choices = returns (JList (map JStr (get_thermal_profile_choices m))),
      g_backlight_timeout = returns (JStr (get_backlight_timeout m)),
      g_battery_calibration = returns (JStr (get_battery_calibration m)),
      g_battery_limiter = returns (JStr (get_battery_limiter m)),
      g_boot_animation_sound = returns (JStr (get_boot_animation_sound m)),
      g_fan_speed = (\<lambda>w. case get_fan_speed m plat w of ((c, g), w') \<Rightarrow> (Inr (JStr c, JStr g), w')),
      g_lcd_override = returns (JStr (get_lcd_override m)),
      g_usb_charging = returns (JStr (get_usb_charging m)),
      g_per_zone_mode = returns (JStr (get_per_zone_mode m)),
      g_four_zone_mode = returns (JStr (get_four_zone_mode m))\<rparr>"

text \<open>\<^verbatim>\<open>if "F" in self.available_features: settings["F"] = self.get_F()\<close>, and the
  sequencing of two steps, where an exception of the first ends the function.\<close>

definition include_if ::
  "manager \<Rightarrow> string \<Rightarrow> (world \<Rightarrow> (exn + json) \<times> world) \<Rightarrow> settings \<Rightarrow> world \<Rightarrow> (exn + settings) \<times> world" where
  "include_if m feature getter settings w =
     (if feature \<in> set (available_features m) then
        (case getter w of
           (Inl e, w') \<Rightarrow> (Inl e, w')
         | (Inr v, w') \<Rightarrow> (Inr (settings @ [(feature, v)]), w'))
      else (Inr settings, w))"

definition and_then ::
  "(world \<Rightarrow> (exn + 'a) \<times> world) \<Rightarrow> ('a \<Rightarrow> world \<Rightarrow> (exn + 'b) \<times> world) \<Rightarrow> world \<Rightarrow> (exn + 'b) \<times> world" where
  "and_then f g w = (case f w of (Inl e, w') \<Rightarrow> (Inl e, w') | (Inr x, w') \<Rightarrow> g x w')"

definition laptop_type_name :: "LaptopType \<Rightarrow> string" where
  "laptop_type_name t = (case t of UNKNOWN \<Rightarrow> ''UNKNOWN'' | PREDATOR \<Rightarrow> ''PREDATOR'' | NITRO \<Rightarrow> ''NITRO'')"

definition VERSION :: string where
  "VERSION = ''0.4.6''"

definition thermal_profile_entry ::
  "manager \<Rightarrow> getters \<Rightarrow> settings \<Rightarrow> world \<Rightarrow> (exn + settings) \<times> world" where
  "thermal_profile_entry m gs settings =
     (if ''thermal_profile'' \<in> set (available_features m) then
        and_then (g_thermal_profile gs) (\<lambda>current.
        and_then (g_thermal_profile_choices gs) (\<lambda>available.
        returns (settings @ [(''thermal_profile'',
                   JObj [(''current'', current), (''available'', available)])])))
      else
        returns (settings @ [(''thermal_profile'',
                   JObj [(''current'', JStr []), (''available'', JList [])])]))"

definition fan_speed_entry :: "getters \<Rightarrow> world \<Rightarrow> (exn + json) \<times> world" where
  "fan_speed_entry gs =
     and_then (g_fan_speed gs) (\<lambda>(cpu_fan, gpu_fan).
       returns (JObj [(''cpu'', cpu_fan), (''gpu'', gpu_fan)]))"

definition get_all_settings_with :: "getters \<Rightarrow> manager \<Rightarrow> world \<Rightarrow> (exn + settings) \<times> world" where
  "get_all_settings_with gs m =
     and_then (g_driver_version gs) (\<lambda>driver_version.
     and_then (thermal_profile_entry m gs
        [(''laptop_type'', JStr (laptop_type_name (laptop_type m))),
         (''has_four_zone_kb'', JBool (has_four_zone_kb m)),
         (''available_features'', JList (map JStr (available_features m))),
         (''version'', JStr VERSION),
         (''driver_version'', driver_version),
         (''modprobe_parameter'', JStr (current_modprobe_param m))]) (\<lambda>s1.
     and_then (include_if m ''backlight_timeout'' (g_backlight_timeout gs) s1) (\<lambda>s2.
     and_then (include_if m ''battery_calibration'' (g_battery_calibration gs) s2) (\<lambda>s3.
     and_then (include_if m ''battery_limiter'' (g_battery_limiter gs) s3) (\<lambda>s4.
     and_then (include_if m ''boot_animation_sound'' (g_boot_animation_sound gs) s4) (\<lambda>s5.
     and_then (include_if m ''fan_speed'' (fan_speed_entry gs) s5) (\<lambda>s6.
     and_then (include_if m ''lcd_override'' (g_lcd_override gs) s6) (\<lambda>s7.
     and_then (include_if m ''usb_charging'' (g_usb_charging gs) s7) (\<lambda>s8.
     and_then (include_if m ''per_zone_mode'' (g_per_zone_mode gs) s8) (\<lambda>s9.
     include_if m ''four_zone_mode'' (g_four_zone_mode gs) s9))))))))))"

definition get_all_settings :: "manager \<Rightarrow> platform \<Rightarrow> world \<Rightarrow> (exn + settings) \<times> world" where
  "get_all_settings m plat = get_all_settings_with (own_getters m plat) m"

section \<open>Example inputs\<close>

text \<open>A platform on which the device is an Acer Nitro with a battery, every WMI
  connection succeeds, the vendor classes are absent and no external program can be
  started; and the empty world.\<close>

abbreviation (input) nitro_platform :: platform where
  "nitro_platform \<equiv> (\<lambda>h. case last h of
       WMI_Connect ns \<Rightarrow> Connected
     | WMI_Query ns cls \<Rightarrow>
         (if cls = ''Win32_ComputerSystem''
          then Objects [[(''Model'', WStr ''Nitro AN515-55''), (''Manufacturer'', WStr ''Acer'')]]
          else if cls = ''Win32_Battery'' then Objects [[(''BatteryStatus'', WInt 1)]]
          else Raises)
     | _ \<Rightarrow> Raises)"

abbreviation (input) empty_world :: world where
  "empty_world \<equiv> \<lparr>calls = [], logs = []\<rparr>"

section \<open>PowerSourceDetector\<close>

text \<open>
  The detector is given a manager object and uses four things of it: the attribute
  \<open>available_features\<close> (after asking whether the object has it) and the methods
  \<open>get_thermal_profile\<close>, \<open>get_thermal_profile_choices\<close> and
  \<open>set_thermal_profile\<close>. \<open>manager_view\<close> is the object as the detector sees it;
  \<open>view_of\<close> is the view of a \<open>DAMXManager\<close>.
\<close>

record manager_view =
  view_features :: "string list option"
  view_get_thermal_profile :: "world \<Rightarrow> string \<times> world"
  view_get_thermal_profile_choices :: "world \<Rightarrow> string list \<times> world"
  view_set_thermal_profile :: "string \<Rightarrow> world \<Rightarrow> world"

definition view_of :: "manager \<Rightarrow> platform \<Rightarrow> manager_view" where
  "view_of m plat =
     \<lparr>view_features = Some (available_features m),
      view_get_thermal_profile = get_thermal_profile m plat,
      view_get_thermal_profile_choices = (\<lambda>w. (get_thermal_profile_choices m, w)),
      view_set_thermal_profile = (\<lambda>p w. snd (set_thermal_profile m plat (JStr p) w))\<rparr>"

datatype timer = Pending nat | Cancelled nat

record detector =
  current_source :: "bool option"
  check_interval :: nat
  timer :: "timer option"

definition init_detector :: "world \<Rightarrow> detector \<times> world" where
  "init_detector w =
     (\<lparr>current_source = None, check_interval = 5, timer = None\<rparr>,
      log INFO ''PowerSourceDetector initialized (Windows)'' w)"

text \<open>\<^verbatim>\<open>str.strip()\<close>, on the ASCII whitespace characters.\<close>

definition is_space :: "char \<Rightarrow> bool" where
  "is_space c = (let n = (of_char c :: nat) in (9 \<le> n \<and> n \<le> 13) \<or> (28 \<le> n \<and> n \<le> 32))"

definition strip :: "string \<Rightarrow> string" where
  "strip s = rev (dropWhile is_space (rev (dropWhile is_space s)))"

definition check_using_powershell :: "platform \<Rightarrow> world \<Rightarrow> bool \<times> world" where
  "check_using_powershell plat w =
     (case subprocess_run plat
             [''powershell'', ''-Command'', ''(Get-WmiObject Win32_Battery).BatteryStatus''] w of
        (Some (rc, out), w') \<Rightarrow>
          if rc = 0 then (strip out \<noteq> ''1'', w')
          else (False, log ERROR ''PowerShell check failed: {e}'' w')
      | (None, w') \<Rightarrow> (False, log ERROR ''PowerShell check failed: {e}'' w'))"

text \<open>Only the first battery is looked at; no battery means a desktop, on AC.\<close>

definition is_ac_connected :: "platform \<Rightarrow> world \<Rightarrow> bool \<times> world" where
  "is_ac_connected plat w =
     (case import_module plat ''wmi'' w of
        (False, w1) \<Rightarrow> check_using_powershell plat w1
      | (True, w1) \<Rightarrow>
          (case wmi_connect plat [] w1 of
             (False, w2) \<Rightarrow> (False, log ERROR ''Error checking power status: {e}'' w2)
           | (True, w2) \<Rightarrow>
               (case wmi_query plat [] ''Win32_Battery'' w2 of
                  (None, w3) \<Rightarrow> (False, log ERROR ''Error checking power status: {e}'' w3)
                | (Some [], w3) \<Rightarrow> (True, w3)
                | (Some (battery # rest), w3) \<Rightarrow>
                    (case getattr_val battery ''BatteryStatus'' of
                       None \<Rightarrow> (False, log ERROR ''Error checking power status: {e}'' w3)
                     | Some status \<Rightarrow> (truthy status \<and> status \<noteq> WInt 1, w3)))))"

definition handle_power_change :: "manager_view \<Rightarrow> bool \<Rightarrow> world \<Rightarrow> world" where
  "handle_power_change v is_plugged_in w =
     (case view_features v of
        None \<Rightarrow> w
      | Some features \<Rightarrow>
          if ''thermal_profile'' \<notin> set features then w
          else
            (case view_get_thermal_profile v w of
               (current_profile, w1) \<Rightarrow>
                 (case view_get_thermal_profile_choices v w1 of
                    (available_profiles, w2) \<Rightarrow>
                      if is_plugged_in then log INFO ''Switched to AC power'' w2
                      else
                        (let w3 = log INFO ''Switched to battery power'' w2 in
                         if current_profile \<notin> set [''balanced'', ''quiet'', ''low-power''] then
                           if ''balanced'' \<in> set available_profiles then
                             view_set_thermal_profile v ''balanced''
                               (log INFO ''Auto-switching to balanced mode for battery power'' w3)
                           else if ''quiet'' \<in> set available_profiles then
                             view_set_thermal_profile v ''quiet''
                               (log INFO ''Auto-switching to quiet mode for battery power'' w3)
                           else if ''low-power'' \<in> set available_profiles then
                             view_set_thermal_profile v ''low-power''
                               (log INFO ''Auto-switching to low-power mode for battery power'' w3)
                           else log WARNING ''No battery-friendly thermal profile available'' w3
                         else w3))))"

text \<open>
  One poll. \<open>_handle_power_change\<close> is a method of the detector, looked up on the
  object when it is called: \<open>check_power_source_with\<close> takes it as a parameter, and the
  handler receives the detector as it is at the moment of the call.
  \<open>check_power_source\<close> is the poll with the detector's own handler. The timer that
  each poll arms runs the next poll; \<open>run_polls\<close> is a number of polls in a row.
\<close>

definition check_power_source_with ::
  "(detector \<Rightarrow> bool \<Rightarrow> world \<Rightarrow> world) \<Rightarrow> platform \<Rightarrow> detector \<Rightarrow> world \<Rightarrow> detector \<times> world" where
  "check_power_source_with handler plat d w =
     (case is_ac_connected plat w of
        (is_plugged_in, w1) \<Rightarrow>
          (case (if Some is_plugged_in \<noteq> current_source d
                 then (let d1 = d\<lparr>current_source := Some is_plugged_in\<rparr>
                       in (d1, handler d1 is_plugged_in w1))
                 else (d, w1)) of
             (d2, w2) \<Rightarrow> (d2\<lparr>timer := Some (Pending (check_interval d2))\<rparr>, w2)))"

definition check_power_source :: "manager_view \<Rightarrow> platform \<Rightarrow> detector \<Rightarrow> world \<Rightarrow> detector \<times> world" where
  "check_power_source v plat d w =
     check_power_source_with (\<lambda>d. handle_power_change v) plat d w"

definition start_monitoring :: "manager_view \<Rightarrow> platform \<Rightarrow> detector \<Rightarrow> world \<Rightarrow> detector \<times> world" where
  "start_monitoring v plat d w =
     (case check_power_source v plat d w of
        (d', w') \<Rightarrow> (d', log INFO ''Monitoring power source started'' w'))"

definition stop_monitoring :: "detector \<Rightarrow> detector" where
  "stop_monitoring d =
     (case timer d of
        Some (Pending n) \<Rightarrow> d\<lparr>timer := Some (Cancelled n)\<rparr>
      | _ \<Rightarrow> d)"

fun run_polls ::
  "(detector \<Rightarrow> bool \<Rightarrow> world \<Rightarrow> world) \<Rightarrow> platform \<Rightarrow> nat \<Rightarrow> detector \<Rightarrow> world \<Rightarrow> detector \<times> world" where
  "run_polls handler plat 0 d w = (d, w)"
| "run_polls handler plat (Suc n) d w =
     (case check_power_source_with handler plat d w of
        (d', w') \<Rightarrow> run_polls handler plat n d' w')"

text \<open>A platform on which the high-performance scheme is active and \<^verbatim>\<open>powercfg\<close>
  succeeds; a platform on which the first battery reports status 2 (on AC); and a
  handler that only records the last observed state of the detector it is given.\<close>

abbreviation (input) performance_platform :: platform where
  "performance_platform \<equiv> (\<lambda>h. case last h of
       Subprocess argv \<Rightarrow>
         (if argv = [''powercfg'', ''/getactivescheme'']
          then Completed 0 ''Power Scheme GUID: 8c5e7fda-e8bf-4a96-9a85-a6e23a8c635c  (High performance)''
          else Completed 0 [])
     | _ \<Rightarrow> Raises)"

abbreviation (input) ac_platform :: platform where
  "ac_platform \<equiv> (\<lambda>h. case last h of
       Import name \<Rightarrow> Returned
     | WMI_Connect ns \<Rightarrow> Connected
     | WMI_Query ns cls \<Rightarrow> Objects [[(''BatteryStatus'', WInt 2)]]
     | _ \<Rightarrow> Raises)"

abbreviation (input) recording_handler :: "detector \<Rightarrow> bool \<Rightarrow> world \<Rightarrow> world" where
  "recording_handler \<equiv> (\<lambda>d is_plugged_in w.
       log INFO (case current_source d of
                   None \<Rightarrow> ''last observed: unknown''
                 | Some True \<Rightarrow> ''last observed: AC''
                 | Some False \<Rightarrow> ''last observed: battery'') w)"

abbreviation (input) thermal_manager :: manager where
  "thermal_manager \<equiv>
     \<lparr>wmi_connection = True, wmi_root = True, laptop_type = NITRO, has_four_zone_kb = False,
      current_modprobe_param = [], available_features = [''thermal_profile'', ''fan_speed'']\<rparr>"

subsection \<open>Administrative operations\<close>

definition force_model_nitro :: "manager \<Rightarrow> world \<Rightarrow> bool \<times> world" where
  "force_model_nitro m w =
     (False, log INFO
        ''Force model not applicable on Windows - use Acer NitroSense/PredatorSense software'' w)"

definition force_model_predator :: "manager \<Rightarrow> world \<Rightarrow> bool \<times> world" where
  "force_model_predator m w =
     (False, log INFO
        ''Force model not applicable on Windows - use Acer NitroSense/PredatorSense software'' w)"

definition force_enable_all :: "manager \<Rightarrow> world \<Rightarrow> bool \<times> world" where
  "force_enable_all m w =
     (False, log INFO
        ''Force enable all not applicable on Windows - use Acer NitroSense/PredatorSense software'' w)"

definition set_modprobe_parameter :: "manager \<Rightarrow> string \<Rightarrow> world \<Rightarrow> bool \<times> world" where
  "set_modprobe_parameter m param w =
     (False, log INFO ''Modprobe parameters not applicable on Windows'' w)"

definition remove_modprobe_parameter :: "manager \<Rightarrow> bool" where
  "remove_modprobe_parameter m = True"

text \<open>\<^verbatim>\<open>sc stop\<close> may fail (its exit code is not checked), \<^verbatim>\<open>sc start\<close> must succeed.\<close>

definition restart_daemon :: "manager \<Rightarrow> platform \<Rightarrow> world \<Rightarrow> bool \<times> world" where
  "restart_daemon m plat w =
     (case subprocess_run plat [''sc'', ''stop'', ''DAMXDaemon'']
             (log INFO ''Attempting to restart daemon'' w) of
        (None, w1) \<Rightarrow> (False, log ERROR ''Error restarting daemon: {e}'' w1)
      | (Some stopped, w1) \<Rightarrow>
          (case perform plat (Sleep 2) w1 of
             (slept, w2) \<Rightarrow>
               (case subprocess_run plat [''sc'', ''start'', ''DAMXDaemon''] w2 of
                  (Some (rc, out), w3) \<Rightarrow>
                    if rc = 0 then (True, w3)
                    else (False, log ERROR ''Error restarting daemon: {e}'' w3)
                | (None, w3) \<Rightarrow> (False, log ERROR ''Error restarting daemon: {e}'' w3))))"

definition restart_drivers_and_daemon :: "manager \<Rightarrow> platform \<Rightarrow> world \<Rightarrow> bool \<times> world" where
  "restart_drivers_and_daemon m plat w =
     restart_daemon m plat (log INFO ''Attempting to restart daemon...'' w)"

section \<open>DaemonServer\<close>

text \<open>
  The functions of the Python library that the server calls are parameters:
  \<^verbatim>\<open>bytes.decode('utf-8')\<close> (the text, or the message of the UnicodeDecodeError),
  \<^verbatim>\<open>json.loads\<close> (the value, or \<open>None\<close> for a JSONDecodeError), \<^verbatim>\<open>json.dumps\<close>
  (whose output is ASCII, so that encoding it changes nothing) and the formatting of a
  value that is not a string inside an f-string.
\<close>

record pylib =
  utf8_decode :: "string \<Rightarrow> string + string"
  json_loads :: "string \<Rightarrow> json option"
  json_dumps :: "json \<Rightarrow> string"
  py_repr :: "json \<Rightarrow> string"

definition py_format :: "pylib \<Rightarrow> json \<Rightarrow> string" where
  "py_format lib v = (case v of JStr s \<Rightarrow> s | _ \<Rightarrow> py_repr lib v)"

definition str_exn :: "exn \<Rightarrow> string" where
  "str_exn e =
     (case e of
        PyException msg \<Rightarrow> msg
      | JSONDecodeError \<Rightarrow> ''{JSONDecodeError}''
      | WinError n \<Rightarrow> ''{pywintypes.error}'')"

subsection \<open>Command dispatch\<close>

text \<open>A reply (the response of the server to a command) is a dictionary. \<^verbatim>\<open>params.get(key, default)\<close> raises when
  \<open>params\<close> is not a dictionary.\<close>

type_synonym reply = "(string \<times> json) list"

definition as_dict :: "json \<Rightarrow> exn + (string \<times> json) list" where
  "as_dict v = (case v of JObj kv \<Rightarrow> Inr kv | _ \<Rightarrow> Inl (no_attribute v ''get''))"

definition dict_get :: "(string \<times> json) list \<Rightarrow> string \<Rightarrow> json \<Rightarrow> json" where
  "dict_get kv key dflt = (case map_of kv key of Some v \<Rightarrow> v | None \<Rightarrow> dflt)"

definition failure :: "string \<Rightarrow> reply" where
  "failure msg = [(''success'', JBool False), (''error'', JStr msg)]"

definition succeeded :: "json \<Rightarrow> reply" where
  "succeeded d = [(''success'', JBool True), (''data'', d)]"

definition setter_response :: "bool \<Rightarrow> json \<Rightarrow> string \<Rightarrow> reply" where
  "setter_response success d msg =
     [(''success'', JBool success),
      (''data'', if success then d else JNull),
      (''error'', if \<not> success then JStr msg else JNull)]"

definition message_response :: "bool \<Rightarrow> string \<Rightarrow> string \<Rightarrow> reply" where
  "message_response success ok_msg err_msg =
     (if success then [(''success'', JBool True), (''message'', JStr ok_msg)]
      else [(''success'', JBool False), (''error'', JStr err_msg)])"

text \<open>The branches that read one parameter \<open>enabled\<close> (or \<open>level\<close>) and call a
  setter without a platform implementation.\<close>

definition switch_command ::
  "manager \<Rightarrow> string \<Rightarrow> string \<Rightarrow> string \<Rightarrow> json \<Rightarrow> (manager \<Rightarrow> json \<Rightarrow> world \<Rightarrow> bool \<times> world)
     \<Rightarrow> string \<Rightarrow> json \<Rightarrow> world \<Rightarrow> (exn + reply) \<times> world" where
  "switch_command m feature unsupported key dflt setter failed params w =
     (if feature \<notin> set (available_features m) then (Inr (failure unsupported), w)
      else
        (case as_dict params of
           Inl e \<Rightarrow> (Inl e, w)
         | Inr kv \<Rightarrow>
             (let enabled = dict_get kv key dflt in
              case setter m enabled w of
                (success, w') \<Rightarrow>
                  (Inr (setter_response success (JObj [(key, enabled)]) failed), w'))))"

definition cmd_get_all_settings :: "manager \<Rightarrow> platform \<Rightarrow> world \<Rightarrow> (exn + reply) \<times> world" where
  "cmd_get_all_settings m plat w =
     (case get_all_settings m plat w of
        (Inl e, w') \<Rightarrow> (Inl e, w')
      | (Inr settings, w') \<Rightarrow> (Inr (succeeded (JObj settings)), w'))"

definition cmd_get_thermal_profile :: "manager \<Rightarrow> platform \<Rightarrow> world \<Rightarrow> (exn + reply) \<times> world" where
  "cmd_get_thermal_profile m plat w =
     (if ''thermal_profile'' \<notin> set (available_features m)
      then (Inr (failure ''Thermal profile is not supported on this device''), w)
      else
        (case get_thermal_profile m plat w of
           (profile, w') \<Rightarrow>
             (Inr (succeeded (JObj [(''current'', JStr profile),
                     (''available'', JList (map JStr (get_thermal_profile_choices m)))])), w')))"

definition cmd_set_thermal_profile ::
  "manager \<Rightarrow> platform \<Rightarrow> json \<Rightarrow> world \<Rightarrow> (exn + reply) \<times> world" where
  "cmd_set_thermal_profile m plat params w =
     (if ''thermal_profile'' \<notin> set (available_features m)
      then (Inr (failure ''Thermal profile is not supported on this device''), w)
      else
        (case as_dict params of
           Inl e \<Rightarrow> (Inl e, w)
         | Inr kv \<Rightarrow>
             (let profile = dict_get kv ''profile'' (JStr []) in
              case set_thermal_profile m plat profile w of
                (Inl e, w') \<Rightarrow> (Inl e, w')
              | (Inr success, w') \<Rightarrow>
                  (Inr (setter_response success (JObj [(''profile'', profile)])
                          ''Failed to set thermal profile''), w'))))"

definition cmd_set_fan_speed ::
  "manager \<Rightarrow> platform \<Rightarrow> json \<Rightarrow> world \<Rightarrow> (exn + reply) \<times> world" where
  "cmd_set_fan_speed m plat params w =
     (if ''fan_speed'' \<notin> set (available_features m)
      then (Inr (failure ''Fan speed control is not supported on this device''), w)
      else
        (case as_dict params of
           Inl e \<Rightarrow> (Inl e, w)
         | Inr kv \<Rightarrow>
             (let cpu = dict_get kv ''cpu'' (JInt 0); gpu = dict_get kv ''gpu'' (JInt 0) in
              case set_fan_speed m plat cpu gpu w of
                (Inl e, w') \<Rightarrow> (Inl e, w')
              | (Inr success, w') \<Rightarrow>
                  (Inr (setter_response success (JObj [(''cpu'', cpu), (''gpu'', gpu)])
                          ''Failed to set fan speed''), w'))))"

definition cmd_set_per_zone_mode :: "manager \<Rightarrow> json \<Rightarrow> world \<Rightarrow> (exn + reply) \<times> world" where
  "cmd_set_per_zone_mode m params w =
     (if ''per_zone_mode'' \<notin> set (available_features m)
      then (Inr (failure ''Per-zone keyboard mode is not supported on this device''), w)
      else
        (case as_dict params of
           Inl e \<Rightarrow> (Inl e, w)
         | Inr kv \<Rightarrow>
             (let zone1 = dict_get kv ''zone1'' (JStr ''000000'');
                  zone2 = dict_get kv ''zone2'' (JStr ''000000'');
                  zone3 = dict_get kv ''zone3'' (JStr ''000000'');
                  zone4 = dict_get kv ''zone4'' (JStr ''000000'');
                  brightness = dict_get kv ''brightness'' (JInt 100) in
              case set_per_zone_mode m zone1 zone2 zone3 zone4 brightness w of
                (success, w') \<Rightarrow>
                  (Inr (setter_response success
                          (JObj [(''zone1'', zone1), (''zone2'', zone2), (''zone3'', zone3),
                                 (''zone4'', zone4), (''brightness'', brightness)])
                          ''Failed to set per-zone mode''), w'))))"

definition cmd_set_four_zone_mode :: "manager \<Rightarrow> json \<Rightarrow> world \<Rightarrow> (exn + reply) \<times> world" where
  "cmd_set_four_zone_mode m params w =
     (if ''four_zone_mode'' \<notin> set (available_features m)
      then (Inr (failure ''Four-zone keyboard mode is not supported on this device''), w)
      else
        (case as_dict params of
           Inl e \<Rightarrow> (Inl e, w)
         | Inr kv \<Rightarrow>
             (let mode = dict_get kv ''mode'' (JInt 0);
                  speed = dict_get kv ''speed'' (JInt 0);
                  brightness = dict_get kv ''brightness'' (JInt 100);
                  direction = dict_get kv ''direction'' (JInt 1);
                  red = dict_get kv ''red'' (JInt 0);
                  green = dict_get kv ''green'' (JInt 0);
                  blue = dict_get kv ''blue'' (JInt 0) in
              case set_four_zone_mode m mode speed brightness direction red green blue w of
                (success, w') \<Rightarrow>
                  (Inr (setter_response success
                          (JObj [(''mode'', mode), (''speed'', speed), (''brightness'', brightness),
                                 (''direction'', direction), (''red'', red), (''green'', green),
                                 (''blue'', blue)])
                          ''Failed to set four-zone mode''), w'))))"

text \<open>The three commands that set a modprobe parameter. The first does not bind
  \<open>param\<close>: building its data would raise a NameError, were the setter to succeed.\<close>

definition cmd_set_modprobe_parameter_nitro :: "manager \<Rightarrow> world \<Rightarrow> (exn + reply) \<times> world" where
  "cmd_set_modprobe_parameter_nitro m w =
     (case set_modprobe_parameter m ''nitro_v4'' w of
        (success, w') \<Rightarrow>
          if success then (Inl (PyException ''name 'param' is not defined''), w')
          else (Inr (setter_response success JNull ''Failed to set modprobe parameter''), w'))"

definition cmd_set_modprobe_parameter ::
  "manager \<Rightarrow> string \<Rightarrow> json \<Rightarrow> world \<Rightarrow> (exn + reply) \<times> world" where
  "cmd_set_modprobe_parameter m name params w =
     (case as_dict params of
        Inl e \<Rightarrow> (Inl e, w)
      | Inr kv \<Rightarrow>
          (let param = dict_get kv ''parameter'' (JStr []) in
           case set_modprobe_parameter m name w of
             (success, w') \<Rightarrow>
               (Inr (setter_response success (JObj [(''parameter'', param)])
                       ''Failed to set modprobe parameter''), w')))"

definition command_names :: "string list" where
  "command_names =
     [''get_all_settings'', ''get_thermal_profile'', ''set_thermal_profile'',
      ''set_backlight_timeout'', ''set_battery_calibration'', ''set_battery_limiter'',
      ''set_boot_animation_sound'', ''set_fan_speed'', ''set_lcd_override'',
      ''set_usb_charging'', ''set_per_zone_mode'', ''set_four_zone_mode'',
      ''get_supported_features'', ''get_version'', ''force_nitro_model'',
      ''force_predator_model'', ''force_enable_all'', ''get_modprobe_parameter'',
      ''set_modprobe_parameter_nitro'', ''set_modprobe_parameter_predator'',
      ''set_modprobe_parameter_enable_all'', ''remove_modprobe_parameter'',
      ''restart_daemon'', ''restart_drivers_and_daemon'']"

text \<open>The body of the \<^verbatim>\<open>try\<close> of \<open>process_command\<close>: the chain of comparisons of the
  command with the names, in the order of the source.\<close>

definition dispatch ::
  "pylib \<Rightarrow> manager \<Rightarrow> platform \<Rightarrow> json \<Rightarrow> json \<Rightarrow> world \<Rightarrow> (exn + reply) \<times> world" where
  "dispatch lib m plat command params w =
     (if command = JStr ''get_all_settings'' then cmd_get_all_settings m plat w
      else if command = JStr ''get_thermal_profile'' then cmd_get_thermal_profile m plat w
      else if command = JStr ''set_thermal_profile'' then cmd_set_thermal_profile m plat params w
      else if command = JStr ''set_backlight_timeout'' then
        switch_command m ''backlight_timeout'' ''Backlight timeout is not supported on this device''
          ''enabled'' (JBool False) set_backlight_timeout ''Failed to set backlight timeout'' params w
      else if command = JStr ''set_battery_calibration'' then
        switch_command m ''battery_calibration'' ''Battery calibration is not supported on this device''
          ''enabled'' (JBool False) set_battery_calibration ''Failed to set battery calibration'' params w
      else if command = JStr ''set_battery_limiter'' then
        switch_command m ''battery_limiter'' ''Battery limiter is not supported on this device''
          ''enabled'' (JBool False) set_battery_limiter ''Failed to set battery limiter'' params w
      else if command = JStr ''set_boot_animation_sound'' then
        switch_command m ''boot_animation_sound'' ''Boot animation sound is not supported on this device''
          ''enabled'' (JBool False) set_boot_animation_sound ''Failed to set boot animation sound'' params w
      else if command = JStr ''set_fan_speed'' then cmd_set_fan_speed m plat params w
      else if command = JStr ''set_lcd_override'' then
        switch_command m ''lcd_override'' ''LCD override is not supported on this device''
          ''enabled'' (JBool False) set_lcd_override ''Failed to set LCD override'' params w
      else if command = JStr ''set_usb_charging'' then
        switch_command m ''usb_charging'' ''USB charging control is not supported on this device''
          ''level'' (JInt 0) set_usb_charging ''Failed to set USB charging'' params w
      else if command = JStr ''set_per_zone_mode'' then cmd_set_per_zone_mode m params w
      else if command = JStr ''set_four_zone_mode'' then cmd_set_four_zone_mode m params w
      else if command = JStr ''get_supported_features'' then
        (Inr (succeeded (JObj
           [(''available_features'', JList (map JStr (available_features m))),
            (''laptop_type'', JStr (laptop_type_name (laptop_type m))),
            (''has_four_zone_kb'', JBool (has_four_zone_kb m))])), w)
      else if command = JStr ''get_version'' then
        (Inr (succeeded (JObj [(''version'', JStr VERSION)])), w)
      else if command = JStr ''force_nitro_model'' then
        (case force_model_nitro m w of
           (success, w') \<Rightarrow>
             (Inr (message_response success ''Successfully forced Nitro model into driver''
                     ''Failed to force Nitro model into driver''), w'))
      else if command = JStr ''force_predator_model'' then
        (case force_model_predator m w of
           (success, w') \<Rightarrow>
             (Inr (message_response success ''Successfully forced Predator model into driver''
                     ''Failed to force Predator model into driver (Model may not support it)''), w'))
      else if command = JStr ''force_enable_all'' then
        (case force_enable_all m w of
           (success, w') \<Rightarrow>
             (Inr (message_response success ''Successfully forced all features into driver''
                     ''Failed to force all features into driver (Model may not support it)''), w'))
      else if command = JStr ''get_modprobe_parameter'' then
        (Inr (succeeded (JObj [(''parameter'', JStr (get_modprobe_parameter m))])), w)
      else if command = JStr ''set_modprobe_parameter_nitro'' then
        cmd_set_modprobe_parameter_nitro m w
      else if command = JStr ''set_modprobe_parameter_predator'' then
        cmd_set_modprobe_parameter m ''predator_v4'' params w
      else if command = JStr ''set_modprobe_parameter_enable_all'' then
        cmd_set_modprobe_parameter m ''enable_all'' params w
      else if command = JStr ''remove_modprobe_parameter'' then
        (let success = remove_modprobe_parameter m in
         (Inr [(''success'', JBool success),
               (''message'', if success then JStr ''Successfully removed modprobe parameter'' else JNull),
               (''error'', if \<not> success then JStr ''Failed to remove modprobe parameter'' else JNull)],
          w))
      else if command = JStr ''restart_daemon'' then
        (case restart_daemon m plat w of
           (success, w') \<Rightarrow>
             (Inr (message_response success ''Successfully restarted DAMX daemon''
                     ''Failed to Restart DAMX daemon (Check logs for details)''), w'))
      else if command = JStr ''restart_drivers_and_daemon'' then
        (case restart_drivers_and_daemon m plat w of
           (success, w') \<Rightarrow>
             (Inr (message_response success ''Successfully restarted drivers and daemon''
                     ''Failed to restart drivers and daemon''), w'))
      else (Inr (failure (''Unknown command: '' @ py_format lib command)), w))"

text \<open>\<open>process_command\<close>: the log record, the dispatch, and the handler that turns any
  exception of the dispatch into an error response.\<close>

definition process_command ::
  "pylib \<Rightarrow> manager \<Rightarrow> platform \<Rightarrow> json \<Rightarrow> json \<Rightarrow> world \<Rightarrow> (exn + reply) \<times> world" where
  "process_command lib m plat command params w =
     (case dispatch lib m plat command params
             (log INFO ''Processing command: {command} with params: {params}'' w) of
        (Inr reply, w') \<Rightarrow> (Inr reply, w')
      | (Inl e, w') \<Rightarrow>
          (Inr (failure (str_exn e)),
           log ERROR ''{traceback.format_exc()}''
             (log ERROR ''Error processing command {command}: {e}'' w')))"

subsection \<open>One client connection\<close>




datatype status = Closed | Blocked










text \<open>A small stand-in for the Python library: the only text that parses is
  \<^verbatim>\<open>get_version\<close>, and a dictionary is printed as one letter, \<^verbatim>\<open>T\<close> or \<^verbatim>\<open>F\<close>, for
  its \<open>success\<close> entry.\<close>

abbreviation (input) toy_lib :: pylib where
  "toy_lib \<equiv>
     \<lparr>utf8_decode = Inr,
      json_loads = (\<lambda>s. if s = ''get_version''
                         then Some (JObj [(''command'', JStr ''get_version'')]) else None),
      json_dumps = (\<lambda>v. case v of JObj ((k, JBool b) # r) \<Rightarrow> (if b then ''T'' else ''F'')
                              | _ \<Rightarrow> ''?''),
      py_repr = (\<lambda>v. ''?'')\<rparr>"

section \<open>Properties of the thermal profile\<close>

lemma subprocess_run_calls:
  "calls (snd (subprocess_run plat argv w)) = calls w @ [Subprocess argv]"
  by (simp add: subprocess_run_def perform_def split: response.splits)

lemma log_calls: "calls (log lv msg w) = calls w"
  by (simp add: log_def)

lemma set_thermal_profile_calls:
  assumes "''thermal_profile'' \<in> set (available_features m)"
  shows "calls (snd (set_thermal_profile m plat (JStr p) w)) =
           calls w @ [Subprocess [''powercfg'', ''/setactive'', scheme_guid p]]"
proof -
  obtain r w' where r: "subprocess_run plat [''powercfg'', ''/setactive'', scheme_guid p] w = (r, w')"
    by (cases "subprocess_run plat [''powercfg'', ''/setactive'', scheme_guid p] w") auto
  have c: "calls w' = calls w @ [Subprocess [''powercfg'', ''/setactive'', scheme_guid p]]"
    using subprocess_run_calls [of plat "[''powercfg'', ''/setactive'', scheme_guid p]" w] r
    by simp
  show ?thesis
    using assms r c
    by (auto simp: set_thermal_profile_def log_calls split: option.splits)
qed

lemma lower_Turbo: "lower ''Turbo'' = ''turbo''"
  by code_simp

lemma lower_performance: "lower ''performance'' = ''performance''"
  by code_simp

lemma lower_balanced: "lower ''balanced'' = ''balanced''"
  by code_simp

lemma lower_char_upper:
  assumes "65 \<le> (of_char a :: nat)" and "(of_char a :: nat) \<le> 90" and "(of_char b :: nat) = of_char a + 32"
  shows "lower_char a = b" and "lower_char b = b"
proof -
  have "char_of ((of_char a :: nat) + 32) = char_of (of_char b :: nat)"
    using assms(3) by simp
  then show "lower_char a = b"
    using assms(1,2) by (simp add: lower_char_def)
  show "lower_char b = b"
    using assms by (simp add: lower_char_def)
qed

lemma same_letter_lower: "same_letter a b \<Longrightarrow> lower_char a = lower_char b"
  unfolding same_letter_def
  using lower_char_upper by metis

lemma equal_ignoring_case_lower: "equal_ignoring_case p q \<Longrightarrow> lower p = lower q"
  unfolding equal_ignoring_case_def lower_def
  by (induction p q rule: list_all2_induct) (auto dest: same_letter_lower)

lemma same_letter_lower_char: "same_letter c (lower_char c)"
proof (cases "65 \<le> (of_char c :: nat) \<and> (of_char c :: nat) \<le> 90")
  case True
  then have "(of_char (char_of ((of_char c :: nat) + 32)) :: nat) = of_char c + 32"
    by (simp add: of_char_of)
  with True show ?thesis
    by (simp add: same_letter_def lower_char_def)
next
  case False
  then show ?thesis
    by (auto simp: same_letter_def lower_char_def)
qed

lemma equal_ignoring_case_lower_self: "equal_ignoring_case p (lower p)"
  unfolding equal_ignoring_case_def lower_def
  by (induction p) (auto simp: same_letter_lower_char)

lemma lower_quiet: "lower ''quiet'' = ''quiet''"
  by code_simp

lemma lower_low_power: "lower ''low-power'' = ''low-power''"
  by code_simp

lemma lower_balanced_performance: "lower ''balanced-performance'' = ''balanced-performance''"
  by code_simp

lemma scheme_map_keys_lower:
  "map_of scheme_map name = Some guid \<Longrightarrow> lower name = name"
  by (auto simp: scheme_map_def lower_performance lower_balanced lower_quiet lower_low_power
      lower_balanced_performance split: if_splits)

lemma recognised_iff:
  "(lower p \<in> set (map fst scheme_map)) =
     (\<exists>name. name \<in> set (map fst scheme_map) \<and> equal_ignoring_case p name)"
proof
  assume "lower p \<in> set (map fst scheme_map)"
  then show "\<exists>name. name \<in> set (map fst scheme_map) \<and> equal_ignoring_case p name"
    using equal_ignoring_case_lower_self by blast
next
  assume "\<exists>name. name \<in> set (map fst scheme_map) \<and> equal_ignoring_case p name"
  then obtain name where n: "name \<in> set (map fst scheme_map)" and e: "equal_ignoring_case p name"
    by blast
  from n obtain guid where "map_of scheme_map name = Some guid"
    by (metis map_of_eq_None_iff not_Some_eq set_map)
  then have "lower name = name" by (rule scheme_map_keys_lower)
  with e n show "lower p \<in> set (map fst scheme_map)"
    using equal_ignoring_case_lower by fastforce
qed

text \<open>
  C8. \<open>set_thermal_profile\<close> maps the requested name through the fixed table without
  regard to case: a name that equals a key of the table up to the case of its letters
  activates that key's identifier (the one platform call is \<^verbatim>\<open>powercfg /setactive\<close>
  with it). A name that equals no key up to case is not rejected: the call is made with
  the identifier of \<open>balanced\<close>, \<^verbatim>\<open>381b4222-f694-41f0-9685-ff5bb260df2e\<close>, and the
  result is that call's success. In the code's own terms, the identifier is the table
  entry of the lowered name, or the default.
\<close>

theorem set_thermal_profile_case_insensitive_default:
  assumes "''thermal_profile'' \<in> set (available_features m)"
  shows "(\<forall>name guid. equal_ignoring_case p name \<and> map_of scheme_map name = Some guid \<longrightarrow>
            calls (snd (set_thermal_profile m plat (JStr p) w)) =
              calls w @ [Subprocess [''powercfg'', ''/setactive'', guid]])
         \<and> ((\<forall>name. name \<in> set (map fst scheme_map) \<longrightarrow> \<not> equal_ignoring_case p name) \<longrightarrow>
              calls (snd (set_thermal_profile m plat (JStr p) w)) =
                calls w @ [Subprocess [''powercfg'', ''/setactive'',
                  ''381b4222-f694-41f0-9685-ff5bb260df2e'']]
              \<and> fst (set_thermal_profile m plat (JStr p) w) =
                Inr (case plat (calls w @ [Subprocess [''powercfg'', ''/setactive'',
                       ''381b4222-f694-41f0-9685-ff5bb260df2e'']]) of
                       Completed rc out \<Rightarrow> rc = 0 | _ \<Rightarrow> False))
         \<and> calls (snd (set_thermal_profile m plat (JStr p) w)) =
           calls w @ [Subprocess [''powercfg'', ''/setactive'',
             (case map_of scheme_map (lower p) of Some g \<Rightarrow> g
              | None \<Rightarrow> ''381b4222-f694-41f0-9685-ff5bb260df2e'')]]"
proof -
  have g: "scheme_guid p =
      (case map_of scheme_map (lower p) of Some g \<Rightarrow> g
       | None \<Rightarrow> ''381b4222-f694-41f0-9685-ff5bb260df2e'')"
    by (simp add: scheme_guid_def)
  have third: "calls (snd (set_thermal_profile m plat (JStr p) w)) =
           calls w @ [Subprocess [''powercfg'', ''/setactive'',
             (case map_of scheme_map (lower p) of Some g \<Rightarrow> g
              | None \<Rightarrow> ''381b4222-f694-41f0-9685-ff5bb260df2e'')]]"
    using set_thermal_profile_calls [OF assms, of plat p w] g by simp
  have first: "calls (snd (set_thermal_profile m plat (JStr p) w)) =
              calls w @ [Subprocess [''powercfg'', ''/setactive'', guid]]"
    if e: "equal_ignoring_case p name" and k: "map_of scheme_map name = Some guid" for name guid
  proof -
    have "lower p = name"
      using equal_ignoring_case_lower [OF e] scheme_map_keys_lower [OF k] by simp
    with k third show ?thesis by simp
  qed
  have second: "calls (snd (set_thermal_profile m plat (JStr p) w)) =
                calls w @ [Subprocess [''powercfg'', ''/setactive'',
                  ''381b4222-f694-41f0-9685-ff5bb260df2e'']]
              \<and> fst (set_thermal_profile m plat (JStr p) w) =
                Inr (case plat (calls w @ [Subprocess [''powercfg'', ''/setactive'',
                       ''381b4222-f694-41f0-9685-ff5bb260df2e'']]) of
                       Completed rc out \<Rightarrow> rc = 0 | _ \<Rightarrow> False)"
    if unrec: "\<forall>name. name \<in> set (map fst scheme_map) \<longrightarrow> \<not> equal_ignoring_case p name"
  proof -
    from unrec have "lower p \<notin> set (map fst scheme_map)"
      using recognised_iff [of p] by blast
    then have "map_of scheme_map (lower p) = None"
      by (simp add: map_of_eq_None_iff)
    then have guid: "scheme_guid p = ''381b4222-f694-41f0-9685-ff5bb260df2e''"
      by (simp add: scheme_guid_def)
    show ?thesis
      using assms guid
      by (simp add: set_thermal_profile_def subprocess_run_def perform_def log_def
          split: response.splits)
  qed
  from first second third show ?thesis by blast
qed

lemma turbo_unrecognised:
  "\<forall>name. name \<in> set (map fst scheme_map) \<longrightarrow> \<not> equal_ignoring_case ''Turbo'' name"
proof -
  have "lower ''Turbo'' \<notin> set (map fst scheme_map)"
    by (simp add: lower_Turbo scheme_map_def)
  then show ?thesis
    using recognised_iff [of "''Turbo''"] by blast
qed

theorem set_thermal_profile_case_insensitive_default_witness:
  "calls (snd (set_thermal_profile thermal_manager (\<lambda>h. Completed 0 []) (JStr ''PERFORMANCE'')
      empty_world)) =
     [Subprocess [''powercfg'', ''/setactive'', ''8c5e7fda-e8bf-4a96-9a85-a6e23a8c635c'']]
   \<and> calls (snd (set_thermal_profile thermal_manager (\<lambda>h. Completed 0 []) (JStr ''Turbo'')
      empty_world)) =
     [Subprocess [''powercfg'', ''/setactive'', ''381b4222-f694-41f0-9685-ff5bb260df2e'']]
   \<and> fst (set_thermal_profile thermal_manager (\<lambda>h. Completed 0 []) (JStr ''Turbo'')
      empty_world) = Inr True"
proof -
  have f: "''thermal_profile'' \<in> set (available_features thermal_manager)"
    by simp
  have e: "equal_ignoring_case ''PERFORMANCE'' ''performance''"
    by code_simp
  have k: "map_of scheme_map ''performance'' = Some ''8c5e7fda-e8bf-4a96-9a85-a6e23a8c635c''"
    by (simp add: scheme_map_def)
  have a: "calls (snd (set_thermal_profile thermal_manager (\<lambda>h. Completed 0 [])
        (JStr ''PERFORMANCE'') empty_world)) =
      calls empty_world @ [Subprocess [''powercfg'', ''/setactive'', ''8c5e7fda-e8bf-4a96-9a85-a6e23a8c635c'']]"
    using set_thermal_profile_case_insensitive_default [OF f, of "''PERFORMANCE''" "\<lambda>h. Completed 0 []" empty_world] e k
    by blast
  have b: "calls (snd (set_thermal_profile thermal_manager (\<lambda>h. Completed 0 [])
        (JStr ''Turbo'') empty_world)) =
      calls empty_world @ [Subprocess [''powercfg'', ''/setactive'', ''381b4222-f694-41f0-9685-ff5bb260df2e'']]
     \<and> fst (set_thermal_profile thermal_manager (\<lambda>h. Completed 0 []) (JStr ''Turbo'') empty_world) =
        Inr (case (\<lambda>h. Completed 0 []) (calls empty_world @ [Subprocess [''powercfg'', ''/setactive'',
                       ''381b4222-f694-41f0-9685-ff5bb260df2e'']]) of
                       Completed rc out \<Rightarrow> rc = 0 | _ \<Rightarrow> False)"
    using set_thermal_profile_case_insensitive_default [OF f, of "''Turbo''" "\<lambda>h. Completed 0 []" empty_world] turbo_unrecognised
    by blast
  from a b show ?thesis by simp
qed

text \<open>
  C9 (as the code has it). The table sends the five profile names to three power-scheme
  identifiers: \<open>performance\<close> and \<open>balanced-performance\<close> share the identifier of
  the High Performance scheme, \<open>quiet\<close> and \<open>low-power\<close> share that of the Power
  Saver scheme, \<open>balanced\<close> has its own, and the three identifiers differ.
\<close>

theorem scheme_map_three_schemes:
  "map_of scheme_map ''performance'' = Some ''8c5e7fda-e8bf-4a96-9a85-a6e23a8c635c''
   \<and> map_of scheme_map ''balanced-performance'' = Some ''8c5e7fda-e8bf-4a96-9a85-a6e23a8c635c''
   \<and> map_of scheme_map ''balanced'' = Some ''381b4222-f694-41f0-9685-ff5bb260df2e''
   \<and> map_of scheme_map ''quiet'' = Some ''a1841308-3541-4fab-bc81-f71556f20b4a''
   \<and> map_of scheme_map ''low-power'' = Some ''a1841308-3541-4fab-bc81-f71556f20b4a''
   \<and> distinct [''8c5e7fda-e8bf-4a96-9a85-a6e23a8c635c'',
        ''381b4222-f694-41f0-9685-ff5bb260df2e'', ''a1841308-3541-4fab-bc81-f71556f20b4a'']"
  by (simp add: scheme_map_def)

text \<open>The table is not injective on the five names: two distinct names share an
  identifier.\<close>

theorem scheme_map_not_injective:
  "\<not> inj_on (map_of scheme_map)
      {''low-power'', ''quiet'', ''balanced'', ''balanced-performance'', ''performance''}"
proof
  assume "inj_on (map_of scheme_map)
      {''low-power'', ''quiet'', ''balanced'', ''balanced-performance'', ''performance''}"
  moreover have "map_of scheme_map ''performance'' = map_of scheme_map ''balanced-performance''"
    by (simp add: scheme_map_def)
  ultimately have "''performance'' = ''balanced-performance''"
    by (simp add: inj_on_def)
  then show False by simp
qed

section \<open>Properties of the fan speed and of the setters\<close>

lemma add_set: "set (add x xs) = insert x (set xs)"
  by (auto simp: add_def)

lemma detect_features_fan_thermal:
  "''fan_speed'' \<in> set (fst (detect_available_features conn lt plat w))
   \<Longrightarrow> ''thermal_profile'' \<in> set (fst (detect_available_features conn lt plat w))"
  by (auto simp: detect_available_features_def Let_def add_set
      split: prod.splits option.splits if_splits)

lemma detect_features_fan_thermal_pair:
  "detect_available_features conn lt plat w = (fs, w') \<Longrightarrow> ''fan_speed'' \<in> set fs
   \<Longrightarrow> ''thermal_profile'' \<in> set fs"
  using detect_features_fan_thermal [of conn lt plat w] by simp

text \<open>The feature set that the constructor detects never holds \<open>fan_speed\<close> without
  \<open>thermal_profile\<close>: the vendor features are added after it, in the same block.\<close>

lemma init_manager_fan_thermal:
  "''fan_speed'' \<in> set (available_features (fst (init_manager plat w)))
   \<Longrightarrow> ''thermal_profile'' \<in> set (available_features (fst (init_manager plat w)))"
  by (auto simp: init_manager_def Let_def split: prod.splits
      dest: detect_features_fan_thermal_pair)

lemma valid_speeds_JInt:
  "valid_speeds (JInt c) (JInt g) = Inr (0 \<le> c \<and> c \<le> 100 \<and> 0 \<le> g \<and> g \<le> 100)"
  by (auto simp: valid_speeds_def in_range_def py_int_def split: bool.splits)

text \<open>
  C6. When \<open>cpu\<close> or \<open>gpu\<close> lies outside \<open>[0, 100]\<close>, \<open>set_fan_speed\<close> returns
  failure and the history of platform calls is unchanged: no vendor method, ACPI method
  or external interpreter is attempted (whether or not the feature is available).
\<close>

theorem set_fan_speed_out_of_range:
  assumes "\<not> (0 \<le> cpu \<and> cpu \<le> 100 \<and> 0 \<le> gpu \<and> gpu \<le> 100)"
  shows "fst (set_fan_speed m plat (JInt cpu) (JInt gpu) w) = Inr False
         \<and> calls (snd (set_fan_speed m plat (JInt cpu) (JInt gpu) w)) = calls w"
proof -
  from assms have "valid_speeds (JInt cpu) (JInt gpu) = Inr False"
    by (simp add: valid_speeds_JInt)
  then show ?thesis
    by (simp add: set_fan_speed_def log_calls)
qed

theorem set_fan_speed_out_of_range_witness:
  "fst (set_fan_speed
      \<lparr>wmi_connection = True, wmi_root = True, laptop_type = NITRO, has_four_zone_kb = False,
       current_modprobe_param = [], available_features = [''thermal_profile'', ''fan_speed'']\<rparr>
      (\<lambda>h. Returned) (JInt 50) (JInt 101) \<lparr>calls = [], logs = []\<rparr>) = Inr False
   \<and> calls (snd (set_fan_speed
      \<lparr>wmi_connection = True, wmi_root = True, laptop_type = NITRO, has_four_zone_kb = False,
       current_modprobe_param = [], available_features = [''thermal_profile'', ''fan_speed'']\<rparr>
      (\<lambda>h. Returned) (JInt 50) (JInt 101) \<lparr>calls = [], logs = []\<rparr>)) = []"
  using set_fan_speed_out_of_range
    [of 50 101
        "\<lparr>wmi_connection = True, wmi_root = True, laptop_type = NITRO,
          has_four_zone_kb = False, current_modprobe_param = [],
          available_features = [''thermal_profile'', ''fan_speed'']\<rparr>"
        "\<lambda>h. Returned" "\<lparr>calls = [], logs = []\<rparr>"]
  by simp

lemma scheme_guid_performance:
  "scheme_guid ''performance'' = ''8c5e7fda-e8bf-4a96-9a85-a6e23a8c635c''"
  by (simp add: scheme_guid_def lower_performance scheme_map_def)

lemma scheme_guid_balanced:
  "scheme_guid ''balanced'' = ''381b4222-f694-41f0-9685-ff5bb260df2e''"
  by (simp add: scheme_guid_def lower_balanced scheme_map_def)

lemma set_thermal_profile_JStr_returns:
  "\<exists>b. fst (set_thermal_profile m plat (JStr p) w) = Inr b"
  by (auto simp: set_thermal_profile_def split: prod.splits option.splits)

lemma fan_fallback_result:
  assumes "''thermal_profile'' \<in> set (available_features m)"
  shows "fst (fan_fallback m plat c g w) = ((c \<ge> 80 \<and> g \<ge> 80) \<or> (c = 0 \<and> g = 0))"
proof -
  let ?w0 = "log INFO ''Alternative: Use 'performance' thermal profile for higher fan speeds''
                (log INFO ''Tip: Install Acer PredatorSense/NitroSense for full fan control''
                  (log WARNING ''Direct fan control not available on this system'' w))"
  obtain b1 where b1: "fst (set_thermal_profile m plat (JStr ''performance'') ?w0) = Inr b1"
    using set_thermal_profile_JStr_returns by blast
  obtain b2 where b2: "fst (set_thermal_profile m plat (JStr ''balanced'') ?w0) = Inr b2"
    using set_thermal_profile_JStr_returns by blast
  show ?thesis
    using assms b1 b2
    by (auto simp: fan_fallback_def Let_def split: prod.splits sum.splits)
qed

lemma fan_fallback_calls:
  assumes "''thermal_profile'' \<in> set (available_features m)"
  shows "calls (snd (fan_fallback m plat c g w)) =
     calls w @
       (if c \<ge> 80 \<and> g \<ge> 80
        then [Subprocess [''powercfg'', ''/setactive'', ''8c5e7fda-e8bf-4a96-9a85-a6e23a8c635c'']]
        else if c = 0 \<and> g = 0
        then [Subprocess [''powercfg'', ''/setactive'', ''381b4222-f694-41f0-9685-ff5bb260df2e'']]
        else [])"
proof -
  let ?w0 = "log INFO ''Alternative: Use 'performance' thermal profile for higher fan speeds''
                (log INFO ''Tip: Install Acer PredatorSense/NitroSense for full fan control''
                  (log WARNING ''Direct fan control not available on this system'' w))"
  have c0: "calls ?w0 = calls w"
    by (simp add: log_calls)
  have p: "calls (snd (set_thermal_profile m plat (JStr ''performance'') ?w0)) =
      calls w @ [Subprocess [''powercfg'', ''/setactive'', ''8c5e7fda-e8bf-4a96-9a85-a6e23a8c635c'']]"
    using set_thermal_profile_calls [OF assms, of plat "''performance''" ?w0] c0
    by (simp add: scheme_guid_performance)
  have b: "calls (snd (set_thermal_profile m plat (JStr ''balanced'') ?w0)) =
      calls w @ [Subprocess [''powercfg'', ''/setactive'', ''381b4222-f694-41f0-9685-ff5bb260df2e'']]"
    using set_thermal_profile_calls [OF assms, of plat "''balanced''" ?w0] c0
    by (simp add: scheme_guid_balanced)
  show ?thesis
    using assms p b c0
    by (auto simp: fan_fallback_def Let_def log_calls split: prod.splits sum.splits)
qed

lemma set_fan_speed_all_methods_fail:
  assumes "0 \<le> cpu \<and> cpu \<le> 100 \<and> 0 \<le> gpu \<and> gpu \<le> 100"
    and "''fan_speed'' \<in> set (available_features m)"
    and "\<not> fst (fan_method1 plat cpu gpu w)"
    and "\<not> fst (fan_method2 plat cpu gpu (snd (fan_method1 plat cpu gpu w)))"
    and "\<not> fst (fan_method3 plat cpu gpu
            (snd (fan_method2 plat cpu gpu (snd (fan_method1 plat cpu gpu w)))))"
  shows "set_fan_speed m plat (JInt cpu) (JInt gpu) w =
     (Inr (fst (fan_fallback m plat cpu gpu
            (snd (fan_method3 plat cpu gpu
              (snd (fan_method2 plat cpu gpu (snd (fan_method1 plat cpu gpu w)))))))),
      snd (fan_fallback m plat cpu gpu
            (snd (fan_method3 plat cpu gpu
              (snd (fan_method2 plat cpu gpu (snd (fan_method1 plat cpu gpu w))))))))"
proof -
  have v: "valid_speeds (JInt cpu) (JInt gpu) = Inr True"
    using assms(1) by (simp add: valid_speeds_JInt)
  show ?thesis
    using assms(2-5) v
    by (auto simp: set_fan_speed_def py_int_def Let_def split: prod.splits bool.splits)
qed

text \<open>
  C2. Take a manager as the constructor builds it, with \<open>fan_speed\<close> available, and
  both speeds in \<open>[0, 100]\<close>. When none of the three vendor methods returns success,
  \<open>set_fan_speed\<close> reports success exactly when both speeds are at least 80 or both
  are 0; the only platform call after the three methods is then
  \<^verbatim>\<open>powercfg /setactive\<close> with the identifier of \<open>performance\<close>, respectively of
  \<open>balanced\<close>; in every other case it returns failure and makes no further call.
\<close>

theorem set_fan_speed_fallback:
  assumes "0 \<le> cpu \<and> cpu \<le> 100 \<and> 0 \<le> gpu \<and> gpu \<le> 100"
    and "''fan_speed'' \<in> set (available_features (fst (init_manager plat0 w0)))"
    and "\<not> fst (fan_method1 plat cpu gpu w)"
    and "\<not> fst (fan_method2 plat cpu gpu (snd (fan_method1 plat cpu gpu w)))"
    and "\<not> fst (fan_method3 plat cpu gpu
            (snd (fan_method2 plat cpu gpu (snd (fan_method1 plat cpu gpu w)))))"
  shows "fst (set_fan_speed (fst (init_manager plat0 w0)) plat (JInt cpu) (JInt gpu) w) =
           Inr ((cpu \<ge> 80 \<and> gpu \<ge> 80) \<or> (cpu = 0 \<and> gpu = 0))
         \<and> calls (snd (set_fan_speed (fst (init_manager plat0 w0)) plat (JInt cpu) (JInt gpu) w)) =
           calls (snd (fan_method3 plat cpu gpu
                    (snd (fan_method2 plat cpu gpu (snd (fan_method1 plat cpu gpu w))))))
           @ (if cpu \<ge> 80 \<and> gpu \<ge> 80
              then [Subprocess [''powercfg'', ''/setactive'', ''8c5e7fda-e8bf-4a96-9a85-a6e23a8c635c'']]
              else if cpu = 0 \<and> gpu = 0
              then [Subprocess [''powercfg'', ''/setactive'', ''381b4222-f694-41f0-9685-ff5bb260df2e'']]
              else [])"
proof -
  have t: "''thermal_profile'' \<in> set (available_features (fst (init_manager plat0 w0)))"
    using assms(2) by (rule init_manager_fan_thermal)
  show ?thesis
    unfolding set_fan_speed_all_methods_fail [OF assms]
    using fan_fallback_result [OF t] fan_fallback_calls [OF t]
    by simp
qed

theorem set_fan_speed_fallback_witness:
  "fst (set_fan_speed (fst (init_manager nitro_platform empty_world)) nitro_platform
         (JInt 90) (JInt 85) empty_world) = Inr True
   \<and> fst (set_fan_speed (fst (init_manager nitro_platform empty_world)) nitro_platform
         (JInt 50) (JInt 50) empty_world) = Inr False"
proof -
  have f: "''fan_speed'' \<in> set (available_features (fst (init_manager nitro_platform empty_world)))"
    by code_simp
  have a1: "\<not> fst (fan_method1 nitro_platform 90 85 empty_world)"
    by code_simp
  have a2: "\<not> fst (fan_method2 nitro_platform 90 85 (snd (fan_method1 nitro_platform 90 85 empty_world)))"
    by code_simp
  have a3: "\<not> fst (fan_method3 nitro_platform 90 85
      (snd (fan_method2 nitro_platform 90 85 (snd (fan_method1 nitro_platform 90 85 empty_world)))))"
    by code_simp
  have b1: "\<not> fst (fan_method1 nitro_platform 50 50 empty_world)"
    by code_simp
  have b2: "\<not> fst (fan_method2 nitro_platform 50 50 (snd (fan_method1 nitro_platform 50 50 empty_world)))"
    by code_simp
  have b3: "\<not> fst (fan_method3 nitro_platform 50 50
      (snd (fan_method2 nitro_platform 50 50 (snd (fan_method1 nitro_platform 50 50 empty_world)))))"
    by code_simp
  have r1: "(0::int) \<le> 90 \<and> (90::int) \<le> 100 \<and> (0::int) \<le> 85 \<and> (85::int) \<le> 100"
    by simp
  have r2: "(0::int) \<le> 50 \<and> (50::int) \<le> 100 \<and> (0::int) \<le> 50 \<and> (50::int) \<le> 100"
    by simp
  show ?thesis
    using set_fan_speed_fallback [OF r1 f a1 a2 a3] set_fan_speed_fallback [OF r2 f b1 b2 b3]
    by simp
qed

text \<open>
  C1 (as the code has it). A setter whose feature is absent from the detected feature
  set returns failure and makes no platform call. \<open>set_thermal_profile\<close> and
  \<open>set_fan_speed\<close> check the feature set first and leave the world as it is. The
  eight other setters have no platform implementation and do not look at the feature
  set: they return failure, and the one thing they change is the log, to which they
  append one advisory record. No setter modifies the manager.
\<close>

theorem setter_of_absent_feature_fails:
  "(''thermal_profile'' \<notin> set (available_features m) \<longrightarrow>
      set_thermal_profile m plat profile w = (Inr False, w))
   \<and> (''fan_speed'' \<notin> set (available_features m) \<longrightarrow>
      set_fan_speed m plat cpu gpu w = (Inr False, w))
   \<and> (''backlight_timeout'' \<notin> set (available_features m) \<longrightarrow>
      set_backlight_timeout m enabled w =
        (False, w\<lparr>logs := logs w @
           [(INFO, ''Backlight timeout control not supported on Windows'')]\<rparr>))
   \<and> (''battery_calibration'' \<notin> set (available_features m) \<longrightarrow>
      set_battery_calibration m enabled w =
        (False, w\<lparr>logs := logs w @
           [(INFO, ''Battery calibration control not supported on Windows - use Acer Care Center'')]\<rparr>))
   \<and> (''battery_limiter'' \<notin> set (available_features m) \<longrightarrow>
      set_battery_limiter m enabled w =
        (False, w\<lparr>logs := logs w @
           [(INFO, ''Battery limiter control not supported on Windows - use Acer Care Center'')]\<rparr>))
   \<and> (''boot_animation_sound'' \<notin> set (available_features m) \<longrightarrow>
      set_boot_animation_sound m enabled w =
        (False, w\<lparr>logs := logs w @
           [(INFO, ''Boot animation sound control not supported on Windows'')]\<rparr>))
   \<and> (''lcd_override'' \<notin> set (available_features m) \<longrightarrow>
      set_lcd_override m enabled w =
        (False, w\<lparr>logs := logs w @
           [(INFO, ''LCD override control not supported on Windows'')]\<rparr>))
   \<and> (''usb_charging'' \<notin> set (available_features m) \<longrightarrow>
      set_usb_charging m lvl w =
        (False, w\<lparr>logs := logs w @
           [(INFO, ''USB charging control not supported on Windows'')]\<rparr>))
   \<and> (''per_zone_mode'' \<notin> set (available_features m) \<longrightarrow>
      set_per_zone_mode m zone1 zone2 zone3 zone4 brightness w =
        (False, w\<lparr>logs := logs w @
           [(INFO, ''Per-zone keyboard control not supported on Windows - use Acer NitroSense/PredatorSense'')]\<rparr>))
   \<and> (''four_zone_mode'' \<notin> set (available_features m) \<longrightarrow>
      set_four_zone_mode m mode speed brightness direction red green blue w =
        (False, w\<lparr>logs := logs w @
           [(INFO, ''Four-zone keyboard control not supported on Windows - use Acer NitroSense/PredatorSense'')]\<rparr>))"
  by (simp add: set_thermal_profile_def set_fan_speed_def set_backlight_timeout_def
      set_battery_calibration_def set_battery_limiter_def set_boot_animation_sound_def
      set_lcd_override_def set_usb_charging_def set_per_zone_mode_def
      set_four_zone_mode_def log_def)

theorem setter_of_absent_feature_fails_witness:
  "set_thermal_profile
      \<lparr>wmi_connection = True, wmi_root = True, laptop_type = UNKNOWN, has_four_zone_kb = False,
       current_modprobe_param = [], available_features = []\<rparr>
      (\<lambda>h. Completed 0 []) (JStr ''performance'') empty_world = (Inr False, empty_world)
   \<and> set_fan_speed
      \<lparr>wmi_connection = True, wmi_root = True, laptop_type = UNKNOWN, has_four_zone_kb = False,
       current_modprobe_param = [], available_features = []\<rparr>
      (\<lambda>h. Completed 0 []) (JInt 50) (JInt 50) empty_world = (Inr False, empty_world)
   \<and> set_battery_limiter
      \<lparr>wmi_connection = True, wmi_root = True, laptop_type = UNKNOWN, has_four_zone_kb = False,
       current_modprobe_param = [], available_features = []\<rparr>
      (JBool True) empty_world =
     (False,
      \<lparr>calls = [],
       logs = [(INFO, ''Battery limiter control not supported on Windows - use Acer Care Center'')]\<rparr>)"
  using setter_of_absent_feature_fails
    [of "\<lparr>wmi_connection = True, wmi_root = True, laptop_type = UNKNOWN,
          has_four_zone_kb = False, current_modprobe_param = [], available_features = []\<rparr>"
        "\<lambda>h. Completed 0 []" "JStr ''performance''" empty_world "JInt 50" "JInt 50"
        "JBool True"]
  by simp

text \<open>A setter without a platform implementation does not leave all state unchanged:
  with \<open>battery_limiter\<close> absent from the feature set, \<open>set_battery_limiter\<close> returns a
  world that differs from the one it was given, by the log record it wrote.\<close>

theorem set_battery_limiter_changes_the_log:
  "''battery_limiter'' \<notin> set (available_features
      \<lparr>wmi_connection = True, wmi_root = True, laptop_type = UNKNOWN, has_four_zone_kb = False,
       current_modprobe_param = [], available_features = []\<rparr>)
   \<and> snd (set_battery_limiter
      \<lparr>wmi_connection = True, wmi_root = True, laptop_type = UNKNOWN, has_four_zone_kb = False,
       current_modprobe_param = [], available_features = []\<rparr>
      (JBool True) empty_world) \<noteq> empty_world"
  by (simp add: set_battery_limiter_def log_def)

section \<open>Properties of the power monitor\<close>

lemma get_thermal_profile_performance_platform:
  "get_thermal_profile thermal_manager performance_platform empty_world =
     (''performance'', \<lparr>calls = [Subprocess [''powercfg'', ''/getactivescheme'']], logs = []\<rparr>)"
  by code_simp

text \<open>
  C3. On a transition to battery power, with \<open>thermal_profile\<close> among the manager's
  features and a current profile that is none of \<open>balanced\<close>, \<open>quiet\<close>,
  \<open>low-power\<close>, the handler applies the first of \<open>balanced\<close>, \<open>quiet\<close>,
  \<open>low-power\<close> (in that order) that is in the manager's list of available profiles;
  when none of the three is in the list it writes a warning to the log and applies
  nothing. A current profile that is one of the three is left alone. When the manager
  has no \<open>thermal_profile\<close> feature the handler returns at once: nothing is applied
  and nothing is logged.
\<close>

theorem handle_power_change_battery:
  "(view_features v = Some features \<and> ''thermal_profile'' \<in> set features
      \<and> view_get_thermal_profile v w = (current_profile, w1)
      \<and> view_get_thermal_profile_choices v w1 = (available_profiles, w2) \<longrightarrow>
      handle_power_change v False w =
        (if current_profile \<notin> {''balanced'', ''quiet'', ''low-power''} then
           (case find (\<lambda>p. p \<in> set available_profiles) [''balanced'', ''quiet'', ''low-power''] of
              Some p \<Rightarrow>
                view_set_thermal_profile v p
                  (log INFO (''Auto-switching to '' @ p @ '' mode for battery power'')
                    (log INFO ''Switched to battery power'' w2))
            | None \<Rightarrow>
                log WARNING ''No battery-friendly thermal profile available''
                  (log INFO ''Switched to battery power'' w2))
         else log INFO ''Switched to battery power'' w2))
   \<and> (view_features v = None
        \<or> (view_features v = Some features \<and> ''thermal_profile'' \<notin> set features) \<longrightarrow>
      handle_power_change v is_plugged_in w = w)"
  by (auto simp: handle_power_change_def Let_def)

theorem handle_power_change_battery_witness:
  "calls (handle_power_change (view_of thermal_manager performance_platform) False empty_world) =
     [Subprocess [''powercfg'', ''/getactivescheme''],
      Subprocess [''powercfg'', ''/setactive'', ''381b4222-f694-41f0-9685-ff5bb260df2e'']]"
proof -
  have a: "view_features (view_of thermal_manager performance_platform) =
      Some [''thermal_profile'', ''fan_speed'']"
    by (simp add: view_of_def)
  have b: "''thermal_profile'' \<in> set [''thermal_profile'', ''fan_speed'']"
    by simp
  have c: "view_get_thermal_profile (view_of thermal_manager performance_platform) empty_world =
      (''performance'', \<lparr>calls = [Subprocess [''powercfg'', ''/getactivescheme'']], logs = []\<rparr>)"
    using get_thermal_profile_performance_platform by (simp add: view_of_def)
  have d: "view_get_thermal_profile_choices (view_of thermal_manager performance_platform)
        \<lparr>calls = [Subprocess [''powercfg'', ''/getactivescheme'']], logs = []\<rparr> =
      ([''low-power'', ''quiet'', ''balanced'', ''balanced-performance'', ''performance''],
       \<lparr>calls = [Subprocess [''powercfg'', ''/getactivescheme'']], logs = []\<rparr>)"
    by (simp add: view_of_def get_thermal_profile_choices_def)
  have e: "''performance'' \<notin> {''balanced'', ''quiet'', ''low-power''}"
    by simp
  have f: "''thermal_profile'' \<in> set (available_features thermal_manager)"
    by simp
  show ?thesis
    using handle_power_change_battery
        [of "view_of thermal_manager performance_platform" "[''thermal_profile'', ''fan_speed'']"
            empty_world "''performance''"
            "\<lparr>calls = [Subprocess [''powercfg'', ''/getactivescheme'']], logs = []\<rparr>"
            "[''low-power'', ''quiet'', ''balanced'', ''balanced-performance'', ''performance'']"
            "\<lparr>calls = [Subprocess [''powercfg'', ''/getactivescheme'']], logs = []\<rparr>"]
      a b c d e
      set_thermal_profile_calls [OF f, of performance_platform "''balanced''"]
    by (simp add: view_of_def log_calls scheme_guid_balanced)
qed

text \<open>
  C4 (as the code has it). In every poll the handler is called exactly when the state
  just read differs from the last observed state, and then once; the last observed
  state is set to the new state before the handler is called, so the handler is given
  the detector with the new state already stored. When the state read equals the last
  observed state the handler is not called and the world is as the reading left it.
  After the poll the last observed state is the state read, in both cases, so the
  next poll does not fire unless the state changes again.
\<close>

theorem check_power_source_fires_on_change:
  assumes "is_ac_connected plat w = (is_plugged_in, w1)"
  shows "(Some is_plugged_in \<noteq> current_source d \<longrightarrow>
            snd (check_power_source_with handler plat d w) =
              handler (d\<lparr>current_source := Some is_plugged_in\<rparr>) is_plugged_in w1)
         \<and> (Some is_plugged_in = current_source d \<longrightarrow>
            snd (check_power_source_with handler plat d w) = w1)
         \<and> current_source (fst (check_power_source_with handler plat d w)) = Some is_plugged_in"
  using assms by (auto simp: check_power_source_with_def Let_def)

theorem check_power_source_fires_on_change_witness:
  "logs (snd (run_polls recording_handler ac_platform 2
       \<lparr>current_source = Some False, check_interval = 5, timer = None\<rparr> empty_world)) =
     [(INFO, ''last observed: AC'')]"
proof -
  have r1: "is_ac_connected ac_platform empty_world =
      (True, \<lparr>calls = [Import ''wmi'', WMI_Connect [], WMI_Query [] ''Win32_Battery''], logs = []\<rparr>)"
    by code_simp
  have r2: "is_ac_connected ac_platform
       \<lparr>calls = [Import ''wmi'', WMI_Connect [], WMI_Query [] ''Win32_Battery''],
        logs = [(INFO, ''last observed: AC'')]\<rparr> =
      (True, \<lparr>calls = [Import ''wmi'', WMI_Connect [], WMI_Query [] ''Win32_Battery'',
                       Import ''wmi'', WMI_Connect [], WMI_Query [] ''Win32_Battery''],
              logs = [(INFO, ''last observed: AC'')]\<rparr>)"
    by code_simp
  obtain d1 w1 where p1: "check_power_source_with recording_handler ac_platform
       \<lparr>current_source = Some False, check_interval = 5, timer = None\<rparr> empty_world = (d1, w1)"
    by (cases "check_power_source_with recording_handler ac_platform
       \<lparr>current_source = Some False, check_interval = 5, timer = None\<rparr> empty_world") auto
  have s1: "w1 = \<lparr>calls = [Import ''wmi'', WMI_Connect [], WMI_Query [] ''Win32_Battery''],
                  logs = [(INFO, ''last observed: AC'')]\<rparr>"
    and c1: "current_source d1 = Some True"
    using check_power_source_fires_on_change [OF r1, of
        "\<lparr>current_source = Some False, check_interval = 5, timer = None\<rparr>" recording_handler] p1
    by (simp_all add: log_def)
  have s2: "logs (snd (check_power_source_with recording_handler ac_platform d1 w1)) =
      [(INFO, ''last observed: AC'')]"
    using check_power_source_fires_on_change [OF r2, of d1 recording_handler] c1
    unfolding s1 by simp
  have "run_polls recording_handler ac_platform 2
       \<lparr>current_source = Some False, check_interval = 5, timer = None\<rparr> empty_world =
      check_power_source_with recording_handler ac_platform d1 w1"
    using p1 by (simp add: numeral_2_eq_2 split: prod.splits)
  with s2 show ?thesis by simp
qed

text \<open>The handler does not see the old state: on the first poll of a fresh detector on
  AC power, the detector handed to the handler already holds AC as its last observed
  state, not the unknown initial state.\<close>

theorem check_power_source_updates_before_handler:
  "snd (check_power_source_with recording_handler ac_platform
       \<lparr>current_source = None, check_interval = 5, timer = None\<rparr> empty_world) =
     \<lparr>calls = [Import ''wmi'', WMI_Connect [], WMI_Query [] ''Win32_Battery''],
      logs = [(INFO, ''last observed: AC'')]\<rparr>"
  by code_simp

section \<open>Properties of the aggregate settings\<close>

lemma include_if_returns:
  assumes "\<And>w. \<exists>v w'. g w = (Inr v, w')"
  shows "\<exists>s' w'. include_if m f g s w = (Inr s', w')
           \<and> map fst s' = map fst s @ filter (\<lambda>x. x \<in> set (available_features m)) [f]"
proof -
  obtain v w' where "g w = (Inr v, w')" using assms by blast
  then show ?thesis by (simp add: include_if_def)
qed

lemma include_if_const:
  "\<exists>s' w'. include_if m f (returns v) s w = (Inr s', w')
           \<and> map fst s' = map fst s @ filter (\<lambda>x. x \<in> set (available_features m)) [f]"
  by (rule include_if_returns) (simp add: returns_def)

lemma thermal_profile_entry_own:
  "\<exists>s' w'. thermal_profile_entry m (own_getters m plat) s w = (Inr s', w')
      \<and> map fst s' = map fst s @ [''thermal_profile'']"
  by (auto simp: thermal_profile_entry_def own_getters_def and_then_def returns_def
      split: prod.splits)

lemma fan_speed_entry_own: "\<exists>v w'. fan_speed_entry (own_getters m plat) w = (Inr v, w')"
  by (auto simp: fan_speed_entry_def own_getters_def and_then_def returns_def split: prod.splits)

lemma driver_version_own: "\<exists>v w'. g_driver_version (own_getters m plat) w = (Inr v, w')"
  by (auto simp: own_getters_def split: prod.splits)

text \<open>
  C5 (as the code has it). With the getters of \<open>DAMXManager\<close>, \<open>get_all_settings\<close>
  never raises, whatever the platform answers: it returns a settings dictionary. Each
  getter that touches the platform absorbs the failure itself and reports a default
  value, so its feature stays in the dictionary. The keys do not depend on the platform:
  the six general entries, \<open>thermal_profile\<close> (an empty entry when the feature is
  absent), and each of the nine other features exactly when it is in the feature set.
\<close>

theorem get_all_settings_returns:
  "\<exists>settings w'. get_all_settings m plat w = (Inr settings, w')
     \<and> map fst settings =
         [''laptop_type'', ''has_four_zone_kb'', ''available_features'', ''version'',
          ''driver_version'', ''modprobe_parameter'', ''thermal_profile'']
         @ filter (\<lambda>f. f \<in> set (available_features m))
             [''backlight_timeout'', ''battery_calibration'', ''battery_limiter'',
              ''boot_animation_sound'', ''fan_speed'', ''lcd_override'', ''usb_charging'',
              ''per_zone_mode'', ''four_zone_mode'']"
proof -
  let ?gs = "own_getters m plat"
  let ?P = "\<lambda>x. x \<in> set (available_features m)"
  obtain dv w0 where a0: "g_driver_version ?gs w = (Inr dv, w0)"
    using driver_version_own by blast
  obtain s1 w1 where a1: "thermal_profile_entry m ?gs
        [(''laptop_type'', JStr (laptop_type_name (laptop_type m))),
         (''has_four_zone_kb'', JBool (has_four_zone_kb m)),
         (''available_features'', JList (map JStr (available_features m))),
         (''version'', JStr VERSION),
         (''driver_version'', dv),
         (''modprobe_parameter'', JStr (current_modprobe_param m))] w0 = (Inr s1, w1)"
    and k1: "map fst s1 = [''laptop_type'', ''has_four_zone_kb'', ''available_features'', ''version'',
          ''driver_version'', ''modprobe_parameter'', ''thermal_profile'']"
    using thermal_profile_entry_own [of m plat _ w0] by fastforce
  obtain s2 w2 where a2: "include_if m ''backlight_timeout'' (g_backlight_timeout ?gs) s1 w1 = (Inr s2, w2)"
    and k2: "map fst s2 = map fst s1 @ filter ?P [''backlight_timeout'']"
    using include_if_const [of m "''backlight_timeout''" "JStr (get_backlight_timeout m)" s1 w1]
    by (auto simp only: own_getters_def getters.simps)
  obtain s3 w3 where a3: "include_if m ''battery_calibration'' (g_battery_calibration ?gs) s2 w2 = (Inr s3, w3)"
    and k3: "map fst s3 = map fst s2 @ filter ?P [''battery_calibration'']"
    using include_if_const [of m "''battery_calibration''" "JStr (get_battery_calibration m)" s2 w2]
    by (auto simp only: own_getters_def getters.simps)
  obtain s4 w4 where a4: "include_if m ''battery_limiter'' (g_battery_limiter ?gs) s3 w3 = (Inr s4, w4)"
    and k4: "map fst s4 = map fst s3 @ filter ?P [''battery_limiter'']"
    using include_if_const [of m "''battery_limiter''" "JStr (get_battery_limiter m)" s3 w3]
    by (auto simp only: own_getters_def getters.simps)
  obtain s5 w5 where a5: "include_if m ''boot_animation_sound'' (g_boot_animation_sound ?gs) s4 w4 = (Inr s5, w5)"
    and k5: "map fst s5 = map fst s4 @ filter ?P [''boot_animation_sound'']"
    using include_if_const [of m "''boot_animation_sound''" "JStr (get_boot_animation_sound m)" s4 w4]
    by (auto simp only: own_getters_def getters.simps)
  obtain s6 w6 where a6: "include_if m ''fan_speed'' (fan_speed_entry ?gs) s5 w5 = (Inr s6, w6)"
    and k6: "map fst s6 = map fst s5 @ filter ?P [''fan_speed'']"
    using include_if_returns [of "fan_speed_entry ?gs" m "''fan_speed''" s5 w5, OF fan_speed_entry_own]
    by blast
  obtain s7 w7 where a7: "include_if m ''lcd_override'' (g_lcd_override ?gs) s6 w6 = (Inr s7, w7)"
    and k7: "map fst s7 = map fst s6 @ filter ?P [''lcd_override'']"
    using include_if_const [of m "''lcd_override''" "JStr (get_lcd_override m)" s6 w6]
    by (auto simp only: own_getters_def getters.simps)
  obtain s8 w8 where a8: "include_if m ''usb_charging'' (g_usb_charging ?gs) s7 w7 = (Inr s8, w8)"
    and k8: "map fst s8 = map fst s7 @ filter ?P [''usb_charging'']"
    using include_if_const [of m "''usb_charging''" "JStr (get_usb_charging m)" s7 w7]
    by (auto simp only: own_getters_def getters.simps)
  obtain s9 w9 where a9: "include_if m ''per_zone_mode'' (g_per_zone_mode ?gs) s8 w8 = (Inr s9, w9)"
    and k9: "map fst s9 = map fst s8 @ filter ?P [''per_zone_mode'']"
    using include_if_const [of m "''per_zone_mode''" "JStr (get_per_zone_mode m)" s8 w8]
    by (auto simp only: own_getters_def getters.simps)
  obtain s10 w10 where a10: "include_if m ''four_zone_mode'' (g_four_zone_mode ?gs) s9 w9 = (Inr s10, w10)"
    and k10: "map fst s10 = map fst s9 @ filter ?P [''four_zone_mode'']"
    using include_if_const [of m "''four_zone_mode''" "JStr (get_four_zone_mode m)" s9 w9]
    by (auto simp only: own_getters_def getters.simps)
  have r: "get_all_settings m plat w = (Inr s10, w10)"
    by (simp add: get_all_settings_def get_all_settings_with_def and_then_def
        a0 a1 a2 a3 a4 a5 a6 a7 a8 a9 a10)
  have "map fst s10 = [''laptop_type'', ''has_four_zone_kb'', ''available_features'', ''version'',
          ''driver_version'', ''modprobe_parameter'', ''thermal_profile'']
         @ filter ?P
             [''backlight_timeout'', ''battery_calibration'', ''battery_limiter'',
              ''boot_animation_sound'', ''fan_speed'', ''lcd_override'', ''usb_charging'',
              ''per_zone_mode'', ''four_zone_mode'']"
    unfolding k10 k9 k8 k7 k6 k5 k4 k3 k2 k1 by simp
  with r show ?thesis by blast
qed

text \<open>
  \<open>get_all_settings\<close> has no exception handler: when a getter raises, the call
  raises with it. And when the platform fails in every call, the features are not left
  out of the dictionary: they are reported with the default values of their getters.
\<close>

theorem get_all_settings_propagates_and_keeps:
  "fst (get_all_settings_with
      ((own_getters thermal_manager (\<lambda>h. Raises))
         \<lparr>g_thermal_profile := (\<lambda>w. (Inl (PyException ''mocked failure''), w))\<rparr>)
      thermal_manager empty_world) = Inl (PyException ''mocked failure'')
   \<and> fst (get_all_settings thermal_manager (\<lambda>h. Raises) empty_world) =
     Inr [(''laptop_type'', JStr ''NITRO''),
          (''has_four_zone_kb'', JBool False),
          (''available_features'', JList [JStr ''thermal_profile'', JStr ''fan_speed'']),
          (''version'', JStr ''0.4.6''),
          (''driver_version'', JStr ''Unknown Version''),
          (''modprobe_parameter'', JStr []),
          (''thermal_profile'',
           JObj [(''current'', JStr ''balanced''),
                 (''available'',
                  JList [JStr ''low-power'', JStr ''quiet'', JStr ''balanced'',
                         JStr ''balanced-performance'', JStr ''performance''])]),
          (''fan_speed'', JObj [(''cpu'', JStr ''0''), (''gpu'', JStr ''0'')])]"
  by code_simp

section \<open>Properties of the server\<close>

lemma unknown_command_distinct:
  assumes "command \<notin> JStr ` set command_names"
  shows "dispatch lib m plat command params w =
           (Inr (failure (''Unknown command: '' @ py_format lib command)), w)"
proof -
  have "\<forall>n \<in> set command_names. command \<noteq> JStr n"
    using assms by blast
  then show ?thesis
    by (simp add: command_names_def dispatch_def)
qed

text \<open>
  C10. For a command that is none of the names of the dispatch chain,
  \<open>process_command\<close> returns the response
  \<^verbatim>\<open>{"success": false, "error": "Unknown command: <command>"}\<close> and the world differs
  only by the log record written before the dispatch: no operation of the manager has
  run. And for every command and every value of the parameters the result is a
  response dictionary, never an exception.
\<close>

theorem process_command_unknown_and_total:
  "(command \<notin> JStr ` set command_names \<longrightarrow>
      process_command lib m plat command params w =
        (Inr [(''success'', JBool False),
              (''error'', JStr (''Unknown command: '' @ py_format lib command))],
         log INFO ''Processing command: {command} with params: {params}'' w))
   \<and> (\<exists>reply w'. process_command lib m plat command params w = (Inr reply, w'))"
proof -
  have total: "\<exists>reply w'. process_command lib m plat command params w = (Inr reply, w')"
    by (auto simp: process_command_def split: prod.splits sum.splits)
  have unknown: "process_command lib m plat command params w =
        (Inr [(''success'', JBool False),
              (''error'', JStr (''Unknown command: '' @ py_format lib command))],
         log INFO ''Processing command: {command} with params: {params}'' w)"
    if "command \<notin> JStr ` set command_names"
    using unknown_command_distinct [OF that]
    by (simp add: process_command_def failure_def)
  from total unknown show ?thesis by blast
qed

theorem process_command_unknown_and_total_witness:
  "process_command
      \<lparr>utf8_decode = Inr, json_loads = (\<lambda>s. None), json_dumps = (\<lambda>v. []), py_repr = (\<lambda>v. [])\<rparr>
      thermal_manager (\<lambda>h. Raises) (JStr ''reboot'') (JObj []) empty_world =
     (Inr [(''success'', JBool False), (''error'', JStr ''Unknown command: reboot'')],
      \<lparr>calls = [], logs = [(INFO, ''Processing command: {command} with params: {params}'')]\<rparr>)"
  using process_command_unknown_and_total
    [of "JStr ''reboot''"
        "\<lparr>utf8_decode = Inr, json_loads = (\<lambda>s. None), json_dumps = (\<lambda>v. []), py_repr = (\<lambda>v. [])\<rparr>"
        thermal_manager "\<lambda>h. Raises" "JObj []" empty_world]
  by (simp add: command_names_def py_format_def log_def)

text \<open>An exception of the dispatch becomes a response: parameters that are a list, not
  a dictionary, make \<^verbatim>\<open>params.get\<close> raise, and the client is told so.\<close>

lemma process_command_converts_exception:
  "fst (process_command toy_lib thermal_manager (\<lambda>h. Raises)
          (JStr ''set_thermal_profile'') (JList []) empty_world) =
     Inr [(''success'', JBool False),
          (''error'', JStr (str_exn (no_attribute (JList []) ''get'')))]"
  by (simp add: process_command_def dispatch_def cmd_set_thermal_profile_def as_dict_def
      failure_def)






end
